theory Spec2Isabelle
  imports Main "HOL-Library.Word"
begin

section \<open>Go runtime and standard-library fragments used by api.go\<close>

text \<open>
  A Go \<open>string\<close> is a byte sequence, which is what \<^typ>\<open>string\<close> is here.
  A Go \<open>panic\<close> is a value of type \<open>panic\<close>; a function that can panic returns
  \<open>panic + 'a\<close>, with \<open>Inl\<close> for the panic.
\<close>

datatype panic =
    PanicParseTypeName string      \<comment> \<open>\<open>panic\<close> of \<open>parseDbType\<close>\<close>
  | PanicFormatTypeValue int       \<comment> \<open>\<open>panic\<close> of \<open>formatDbType\<close>\<close>
  | PanicIndexOutOfRange nat nat   \<comment> \<open>\<open>xs[i]\<close> with \<open>i \<ge> len(xs)\<close>: index, length\<close>
  | PanicSliceBounds nat nat       \<comment> \<open>\<open>xs[:n]\<close> out of range: bound, length\<close>
  | PanicMakeSliceLen int          \<comment> \<open>\<open>make([]T, n)\<close> with a negative \<open>n\<close>\<close>
  | PanicTypeAssertion             \<comment> \<open>a failed one-valued type assertion \<open>v.(T)\<close>\<close>
  | PanicNilDereference            \<comment> \<open>\<open>*p\<close> or a method call through a nil pointer\<close>

definition is_ascii :: "char \<Rightarrow> bool" where
  "is_ascii c = ((of_char c :: nat) < 128)"

definition is_upper :: "char \<Rightarrow> bool" where
  "is_upper c = (65 \<le> (of_char c :: nat) \<and> (of_char c :: nat) \<le> 90)"

definition ascii_lower :: "char \<Rightarrow> char" where
  "ascii_lower c = (if is_upper c then char_of ((of_char c :: nat) + 32) else c)"

text \<open>
  \<open>strings.ToLower\<close>: on a string of ASCII bytes only, the letters \<open>A\<close>..\<open>Z\<close> are
  replaced by \<open>a\<close>..\<open>z\<close>. On any other string Go maps \<open>unicode.ToLower\<close> over the
  decoded runes; that table is not part of this repository and is the parameter \<open>U\<close>.
\<close>

definition strings_ToLower :: "(string \<Rightarrow> string) \<Rightarrow> string \<Rightarrow> string" where
  "strings_ToLower U s = (if list_all is_ascii s then map ascii_lower s else U s)"

text \<open>\<open>strings.Join(elems, sep)\<close>.\<close>

fun strings_Join :: "string list \<Rightarrow> string \<Rightarrow> string" where
  "strings_Join [] sep = []"
| "strings_Join [x] sep = x"
| "strings_Join (x # y # ys) sep = x @ sep @ strings_Join (y # ys) sep"

text \<open>The verb \<open>%d\<close> of \<open>fmt\<close> on an integer: decimal digits, with \<open>-\<close> when negative.\<close>

definition digit_char :: "nat \<Rightarrow> char" where
  "digit_char n = char_of (48 + n)"

fun dec_nat :: "nat \<Rightarrow> string" where
  "dec_nat n = (if n < 10 then [digit_char n] else dec_nat (n div 10) @ [digit_char (n mod 10)])"

declare dec_nat.simps [simp del]

definition fmt_d :: "int \<Rightarrow> string" where
  "fmt_d i = (if i < 0 then CHR ''-'' # dec_nat (nat (- i)) else dec_nat (nat i))"

section \<open>TypeCoder: the type constants, \<open>parseDbType\<close>, \<open>formatDbType\<close>, \<open>parseFieldType\<close>\<close>

text \<open>The \<open>iota\<close> block of type constants; a type code is a Go \<open>int\<close>.\<close>

definition TypeInt :: int where "TypeInt = 0"
definition TypeBigint :: int where "TypeBigint = 1"
definition TypeFloat :: int where "TypeFloat = 2"
definition TypeDouble :: int where "TypeDouble = 3"
definition TypeDecimal :: int where "TypeDecimal = 4"
definition TypeChar :: int where "TypeChar = 5"
definition TypeVarchar :: int where "TypeVarchar = 6"
definition TypeText :: int where "TypeText = 7"
definition TypeMediumText :: int where "TypeMediumText = 8"
definition TypeLongtext :: int where "TypeLongtext = 9"
definition TypeDate :: int where "TypeDate = 10"
definition TypeDatetime :: int where "TypeDatetime = 11"
definition TypeYear :: int where "TypeYear = 12"
definition TypeTime :: int where "TypeTime = 13"
definition TypeTimestamp :: int where "TypeTimestamp = 14"

text \<open>\<open>parseDbType\<close>: a switch on the lower-cased name, a panic when no case matches.\<close>

definition parseDbType :: "(string \<Rightarrow> string) \<Rightarrow> string \<Rightarrow> panic + int" where
  "parseDbType U typename =
     (let l = strings_ToLower U typename in
      if l = ''int'' then Inr TypeInt
      else if l = ''bigint'' then Inr TypeBigint
      else if l = ''float'' then Inr TypeFloat
      else if l = ''double'' then Inr TypeDouble
      else if l = ''decimal'' then Inr TypeDecimal
      else if l = ''char'' then Inr TypeChar
      else if l = ''varchar'' then Inr TypeVarchar
      else if l = ''text'' then Inr TypeText
      else if l = ''mediumtext'' then Inr TypeMediumText
      else if l = ''longtext'' then Inr TypeLongtext
      else if l = ''date'' then Inr TypeDate
      else if l = ''datetime'' then Inr TypeDatetime
      else if l = ''year'' then Inr TypeYear
      else if l = ''timestamp'' then Inr TypeTimestamp
      else if l = ''time'' then Inr TypeTime
      else Inl (PanicParseTypeName typename))"

text \<open>\<open>formatDbType\<close>: a switch on the code, a panic when no case matches.\<close>

definition formatDbType :: "int \<Rightarrow> panic + string" where
  "formatDbType typevalue =
     (if typevalue = TypeInt then Inr ''int''
      else if typevalue = TypeBigint then Inr ''bigint''
      else if typevalue = TypeFloat then Inr ''float''
      else if typevalue = TypeDouble then Inr ''double''
      else if typevalue = TypeDecimal then Inr ''decimal''
      else if typevalue = TypeChar then Inr ''char''
      else if typevalue = TypeVarchar then Inr ''varchar''
      else if typevalue = TypeText then Inr ''text''
      else if typevalue = TypeMediumText then Inr ''mediumtext''
      else if typevalue = TypeLongtext then Inr ''longtext''
      else if typevalue = TypeDatetime then Inr ''datetime''
      else if typevalue = TypeDate then Inr ''date''
      else if typevalue = TypeYear then Inr ''year''
      else if typevalue = TypeTime then Inr ''time''
      else if typevalue = TypeTimestamp then Inr ''timestamp''
      else Inl (PanicFormatTypeValue typevalue))"

text \<open>
  The two regular expressions of \<open>parseFieldType\<close>. \<open>\w\<close> is \<open>[0-9A-Za-z_]\<close> and
  \<open>\d\<close> is \<open>[0-9]\<close>; \<open>FindString\<close> returns the leftmost match, as long as it can be,
  or the empty string.
\<close>

definition is_digit :: "char \<Rightarrow> bool" where
  "is_digit c = (48 \<le> (of_char c :: nat) \<and> (of_char c :: nat) \<le> 57)"

definition is_word :: "char \<Rightarrow> bool" where
  "is_word c = (is_digit c \<or> is_upper c
     \<or> (97 \<le> (of_char c :: nat) \<and> (of_char c :: nat) \<le> 122) \<or> c = CHR ''_'')"

definition find_word :: "string \<Rightarrow> string" where
  "find_word s = takeWhile is_word (dropWhile (\<lambda>c. \<not> is_word c) s)"

definition find_digits :: "string \<Rightarrow> string" where
  "find_digits s = takeWhile is_digit (dropWhile (\<lambda>c. \<not> is_digit c) s)"

text \<open>
  \<open>strconv.Atoi\<close> on a run of decimal digits or the empty string, the only inputs
  \<open>parseFieldType\<close> gives it, with the error dropped as the caller drops it: the empty
  string gives 0, and a number beyond the largest \<open>int\<close> (64 bits) gives that largest
  \<open>int\<close>.
\<close>

definition digits_value :: "string \<Rightarrow> nat" where
  "digits_value s = foldl (\<lambda>n c. 10 * n + ((of_char c :: nat) - 48)) 0 s"

definition Atoi_digits :: "string \<Rightarrow> int" where
  "Atoi_digits s = min (int (digits_value s)) (2 ^ 63 - 1)"

definition parseFieldType :: "(string \<Rightarrow> string) \<Rightarrow> string \<Rightarrow> panic + (string \<times> int \<times> int)" where
  "parseFieldType U typestr =
     (let name = find_word typestr;
          lengthstr = find_digits typestr;
          length = Atoi_digits lengthstr
      in case parseDbType U name of
           Inl p \<Rightarrow> Inl p
         | Inr v \<Rightarrow> Inr (name, v, length))"

record FieldType =
  ft_Name :: string
  ft_Value :: int
  ft_Length :: int

text \<open>\<open>FieldType.ToSql\<close>.\<close>

definition FieldType_ToSql :: "FieldType \<Rightarrow> string" where
  "FieldType_ToSql t =
     (if ft_Value t \<in> set [TypeDate, TypeDatetime, TypeYear, TypeTime, TypeTimestamp,
                             TypeText, TypeMediumText, TypeLongtext]
      then ft_Name t
      else ft_Name t @ ''('' @ fmt_d (ft_Length t) @ '')'')"

section \<open>Values of type \<open>interface{}\<close>\<close>

text \<open>
  The nullable wrappers. \<open>NullTime\<close> and \<open>NullBytes\<close> are declared in api.go;
  \<open>sql.NullInt64\<close>, \<open>sql.NullString\<close> and \<open>sql.NullFloat64\<close> are the ones of
  \<open>database/sql\<close> that \<open>makeNullableScans\<close> allocates. The type \<open>'t\<close> stands for
  \<open>time.Time\<close> and \<open>'f\<close> for \<open>float64\<close>; the zero value of \<open>time.Time\<close> is \<open>0\<close>.
\<close>

record 't NullTime =
  nt_Time :: 't
  nt_Valid :: bool

record NullBytes =
  nb_Bytes :: string
  nb_Valid :: bool

record NullInt64 =
  ni_Int64 :: "64 word"
  ni_Valid :: bool

record NullString =
  ns_String :: string
  ns_Valid :: bool

record 'f NullFloat64 =
  nf_Float64 :: 'f
  nf_Valid :: bool

text \<open>
  What api.go can tell apart in a value of type \<open>interface{}\<close>: the nil interface, the
  plain kinds of its type switches, pointers to them, the nullable wrappers, and the
  rest. A pointer is \<open>None\<close> when it is nil and otherwise carries what its cell holds
  now; the nil slice and the empty slice of bytes are both \<open>[]\<close>.
\<close>

datatype ('f, 't) iface =
    VNil
  | VInt64 "64 word"
  | VFloat64 'f
  | VBool bool
  | VString string
  | VBytes string
  | VTime 't
  | PInt64 "64 word option"
  | PFloat64 "'f option"
  | PBool "bool option"
  | PString "string option"
  | PTime "'t option"
  | PBytes "string option"
  | PNullTime "'t NullTime option"
  | PNullBytes "NullBytes option"
  | PNullInt64 "NullInt64 option"
  | PNullString "NullString option"
  | PNullFloat64 "'f NullFloat64 option"
  | AValuer "('f, 't) iface"
      \<comment> \<open>a value of any other type with a \<open>Value\<close> method, and what that method returns\<close>
  | AScanner nat
      \<comment> \<open>a value of any other type with a \<open>Scan\<close> method, named by a number\<close>
  | Other nat
      \<comment> \<open>a value of any other type, with neither method\<close>

text \<open>Go's \<open>error\<close> values, as far as api.go makes or passes them on.\<close>

datatype ('f, 't) error =
    ErrNilPtr
      \<comment> \<open>\<open>db: destination pointer is nil\<close>\<close>
  | ErrInt64ToBool "64 word"
      \<comment> \<open>\<open>db: the int64(%v) can't convert value to bool.\<close>\<close>
  | ErrFloat64ToBool 'f
      \<comment> \<open>\<open>db: the float64(%v) can't convert value to bool.\<close>\<close>
  | ErrConvertType "('f, 't) iface" "('f, 't) iface"
      \<comment> \<open>\<open>db: convertValue: type error: %T(%v) => %T\<close>: source, destination\<close>
  | ErrColumnsNotFound string
      \<comment> \<open>\<open>the table (%s) columns no found\<close>\<close>
  | ErrNotAcceptType "('f, 't) iface"
      \<comment> \<open>\<open>%T (%v) is not accept type\<close>\<close>
  | ErrLib string
      \<comment> \<open>an error made outside api.go: by strconv, time, database/sql or the driver\<close>

section \<open>The table model\<close>

record FieldDefault =
  fd_Null :: bool
  fd_Value :: string
  fd_CurrentTimestamp :: bool

record Field =
  Name :: string
  FullName :: string
  Type :: FieldType
  Null :: bool
  Key :: string
  Default :: FieldDefault
  Extra :: string
  Comment :: string

text \<open>\<open>FieldDefault.ToSql\<close> and \<open>Field.ToSql\<close>, the line of a field in the DDL.\<close>

definition FieldDefault_ToSql :: "FieldDefault \<Rightarrow> string" where
  "FieldDefault_ToSql d = ''DEFAULT '' @ fd_Value d"

definition Field_ToSql :: "Field \<Rightarrow> string" where
  "Field_ToSql r =
     (let strs0 = [[CHR 0x60] @ Name r @ [CHR 0x60]];
          strs1 = strs0 @ [FieldType_ToSql (Type r)];
          strs2 = (if Null r then strs1 @ [''NULL'', FieldDefault_ToSql (Default r)]
                   else (let strs = strs1 @ [''NOT NULL'']
                         in if \<not> fd_Null (Default r)
                            then strs @ [FieldDefault_ToSql (Default r)] else strs));
          strs3 = strs2 @ [Extra r]
      in strings_Join strs3 '' '')"

record Table =
  DbName :: string
  TbName :: string
  Fields :: "Field list"
  PrimaryKey :: string
  UniqueIndex :: "string list"
  Fullname :: string
  sqlInsert :: string
  sqlSelect :: string
  sqlDelete :: string
  sqlUpdate :: string
  sqlSelectCount :: string
  sqlArgMark :: "string list"
  Len :: int

section \<open>QueryBuilder\<close>

text \<open>
  The loop of \<open>Table.Add\<close> over \<open>values\<close>, from index \<open>i\<close> on: a nil value is
  skipped before \<open>t.Fields[i]\<close> is read, and that read panics out of range.
\<close>

fun listcolname_loop ::
  "Field list \<Rightarrow> ('f, 't) iface list \<Rightarrow> nat \<Rightarrow> string list \<Rightarrow> ('f, 't) iface list
    \<Rightarrow> panic + (string list \<times> ('f, 't) iface list)" where
  "listcolname_loop fs [] i listcolname listParam = Inr (listcolname, listParam)"
| "listcolname_loop fs (v # vs) i listcolname listParam =
     (if v = VNil then listcolname_loop fs vs (Suc i) listcolname listParam
      else if i < length fs
      then listcolname_loop fs vs (Suc i) (listcolname @ [FullName (fs ! i)]) (listParam @ [v])
      else Inl (PanicIndexOutOfRange i (length fs)))"

text \<open>
  The loop that \<open>Get\<close>, \<open>GetMany\<close>, \<open>Find\<close> and \<open>FindMany\<close> each write out, the
  same in all four: a nil argument is skipped, any other adds \<open>FullName=?\<close> and is bound.
\<close>

fun listwhere_loop ::
  "Field list \<Rightarrow> ('f, 't) iface list \<Rightarrow> nat \<Rightarrow> string list \<Rightarrow> ('f, 't) iface list
    \<Rightarrow> panic + (string list \<times> ('f, 't) iface list)" where
  "listwhere_loop fs [] i listwhere listparam = Inr (listwhere, listparam)"
| "listwhere_loop fs (a # as) i listwhere listparam =
     (if a = VNil then listwhere_loop fs as (Suc i) listwhere listparam
      else if i < length fs
      then listwhere_loop fs as (Suc i) (listwhere @ [FullName (fs ! i) @ ''=?'']) (listparam @ [a])
      else Inl (PanicIndexOutOfRange i (length fs)))"

text \<open>
  \<open>xs[:n]\<close>. Go allows \<open>n\<close> up to the capacity of \<open>xs\<close>; here the bound is the length,
  which is the same for every \<open>n \<le> len(xs)\<close>.
\<close>

definition slice_to :: "'a list \<Rightarrow> nat \<Rightarrow> panic + 'a list" where
  "slice_to xs n = (if n \<le> length xs then Inr (take n xs) else Inl (PanicSliceBounds n (length xs)))"

text \<open>What the execution collaborator's \<open>Exec\<close> returns on success.\<close>

record ('f, 't) sql_Result =
  LastInsertId :: "64 word \<times> ('f, 't) error option"
  RowsAffected :: "64 word \<times> ('f, 't) error option"

text \<open>
  \<open>Table.Add\<close>; \<open>Exec\<close> is the package's pass-through to the connection. The SQL
  text is built, and \<open>t.sqlArgMark[:len(listParam)]\<close> taken, before \<open>Exec\<close> is called.
\<close>

definition Add ::
  "(string \<Rightarrow> ('f, 't) iface list \<Rightarrow> ('f, 't) error + ('f, 't) sql_Result) \<Rightarrow> Table
    \<Rightarrow> ('f, 't) iface list \<Rightarrow> panic + (64 word \<times> ('f, 't) error option)" where
  "Add Exec t values =
     (case listcolname_loop (Fields t) values 0 [] [] of
        Inl p \<Rightarrow> Inl p
      | Inr (listcolname, listParam) \<Rightarrow>
          (case slice_to (sqlArgMark t) (length listParam) of
             Inl p \<Rightarrow> Inl p
           | Inr marks \<Rightarrow>
               (case Exec (sqlInsert t @ '' ('' @ strings_Join listcolname '', '' @ '') VALUES (''
                            @ strings_Join marks '', '' @ '')'') listParam of
                  Inl err \<Rightarrow> Inr (- 1, Some err)
                | Inr res \<Rightarrow> Inr (LastInsertId res))))"

text \<open>
  A \<open>Row\<close> and a \<open>Rows\<close>: the collaborator's cursor (of type \<open>'c\<close>), the table and,
  for \<open>Rows\<close>, the scratch cells.
\<close>

record 'c Row =
  row_Row :: 'c
  row_t :: Table

record ('c, 'f, 't) Rows =
  rows_Rows :: 'c
  rows_t :: Table
  rows_scans :: "('f, 't) iface list"

text \<open>
  \<open>Table.makeNullableScans\<close>: a slice of \<open>t.Len\<close> nil entries, then one freshly
  allocated wrapper for each field, stored at the field's index.
\<close>

definition new_scan :: "int \<Rightarrow> ('f::zero, 't::zero) iface" where
  "new_scan v =
     (if v \<in> set [TypeInt, TypeBigint]
        then PNullInt64 (Some \<lparr>ni_Int64 = 0, ni_Valid = False\<rparr>)
      else if v \<in> set [TypeDate, TypeDatetime, TypeYear, TypeTime, TypeTimestamp]
        then PNullTime (Some \<lparr>nt_Time = 0, nt_Valid = False\<rparr>)
      else if v \<in> set [TypeChar, TypeVarchar, TypeText, TypeMediumText, TypeLongtext]
        then PNullString (Some \<lparr>ns_String = [], ns_Valid = False\<rparr>)
      else if v \<in> set [TypeFloat, TypeDouble, TypeDecimal]
        then PNullFloat64 (Some \<lparr>nf_Float64 = 0, nf_Valid = False\<rparr>)
      else PNullBytes (Some \<lparr>nb_Bytes = [], nb_Valid = False\<rparr>))"

definition makeNullableScans :: "Table \<Rightarrow> panic + ('f::zero, 't::zero) iface list" where
  "makeNullableScans t =
     (if Len t < 0 then Inl (PanicMakeSliceLen (Len t))
      else if nat (Len t) < length (Fields t)
        then Inl (PanicIndexOutOfRange (nat (Len t)) (nat (Len t)))
      else Inr (map (\<lambda>f. new_scan (ft_Value (Type f))) (Fields t)
                @ replicate (nat (Len t) - length (Fields t)) VNil))"

text \<open>
  \<open>Table.Get\<close> and \<open>Table.Find\<close>, on a receiver that is not nil; \<open>QueryRow\<close> is the
  pass-through to the connection.
\<close>

definition Get ::
  "(string \<Rightarrow> ('f, 't) iface list \<Rightarrow> 'c) \<Rightarrow> Table \<Rightarrow> ('f, 't) iface list \<Rightarrow> panic + 'c Row" where
  "Get QueryRow t args =
     (case listwhere_loop (Fields t) args 0 [] [] of
        Inl p \<Rightarrow> Inl p
      | Inr (listwhere, listparam) \<Rightarrow>
          (let strSql = sqlSelect t @ '' WHERE '' @ strings_Join listwhere '' AND '' @ '' limit 1''
           in Inr \<lparr>row_Row = QueryRow strSql listparam, row_t = t\<rparr>))"

definition Find ::
  "(string \<Rightarrow> ('f, 't) iface list \<Rightarrow> 'c) \<Rightarrow> Table \<Rightarrow> ('f, 't) iface list \<Rightarrow> panic + 'c Row" where
  "Find QueryRow t args =
     (case listwhere_loop (Fields t) args 0 [] [] of
        Inl p \<Rightarrow> Inl p
      | Inr (listwhere, listparam) \<Rightarrow>
          (let strSql = sqlSelect t @ '' WHERE '' @ strings_Join listwhere '' OR '' @ '' limit 1''
           in Inr \<lparr>row_Row = QueryRow strSql listparam, row_t = t\<rparr>))"

text \<open>
  \<open>Table.GetMany\<close> and \<open>Table.FindMany\<close>; \<open>Query\<close> is the pass-through to the
  connection, and its error is returned before the scratch cells are allocated.
\<close>

definition GetMany ::
  "(string \<Rightarrow> ('f::zero, 't::zero) iface list \<Rightarrow> ('f, 't) error + 'c) \<Rightarrow> Table
    \<Rightarrow> ('f, 't) iface list \<Rightarrow> panic + (('f, 't) error + ('c, 'f, 't) Rows)" where
  "GetMany Query t args =
     (case listwhere_loop (Fields t) args 0 [] [] of
        Inl p \<Rightarrow> Inl p
      | Inr (listwhere, listparam) \<Rightarrow>
          (let strSql = sqlSelect t @ '' WHERE '' @ strings_Join listwhere '' AND ''
           in case Query strSql listparam of
                Inl err \<Rightarrow> Inr (Inl err)
              | Inr rows \<Rightarrow>
                  (case makeNullableScans t of
                     Inl p \<Rightarrow> Inl p
                   | Inr scans \<Rightarrow> Inr (Inr \<lparr>rows_Rows = rows, rows_t = t, rows_scans = scans\<rparr>))))"

definition FindMany ::
  "(string \<Rightarrow> ('f::zero, 't::zero) iface list \<Rightarrow> ('f, 't) error + 'c) \<Rightarrow> Table
    \<Rightarrow> ('f, 't) iface list \<Rightarrow> panic + (('f, 't) error + ('c, 'f, 't) Rows)" where
  "FindMany Query t args =
     (case listwhere_loop (Fields t) args 0 [] [] of
        Inl p \<Rightarrow> Inl p
      | Inr (listwhere, listparam) \<Rightarrow>
          (let strSql = sqlSelect t @ '' WHERE '' @ strings_Join listwhere '' OR ''
           in case Query strSql listparam of
                Inl err \<Rightarrow> Inr (Inl err)
              | Inr rows \<Rightarrow>
                  (case makeNullableScans t of
                     Inl p \<Rightarrow> Inl p
                   | Inr scans \<Rightarrow> Inr (Inr \<lparr>rows_Rows = rows, rows_t = t, rows_scans = scans\<rparr>))))"

section \<open>What the standard library and the connection provide\<close>

text \<open>
  The functions of Go's standard library that api.go calls and that are not written out
  above, as the fields of one record: they are parameters of everything below.
\<close>

record ('f, 't) lib =
  unicode_ToLower :: "string \<Rightarrow> string"
    \<comment> \<open>\<open>strings.ToLower\<close> on a string with a byte outside ASCII\<close>
  unicode_ToUpper :: "string \<Rightarrow> string"
    \<comment> \<open>\<open>strings.ToUpper\<close> on a string with a byte outside ASCII\<close>
  sql_string :: "('f, 't) iface \<Rightarrow> ('f, 't) error + string"
    \<comment> \<open>how \<open>database/sql\<close> stores a column value in a \<open>*string\<close>\<close>
  sql_scan_error :: "nat \<Rightarrow> ('f, 't) error \<Rightarrow> ('f, 't) error"
    \<comment> \<open>the error of \<open>rows.Scan\<close> for a column index and the error met at that column\<close>
  foreign_Scan :: "('f, 't) iface \<Rightarrow> ('f, 't) iface \<Rightarrow> panic + (('f, 't) error option \<times> ('f, 't) iface)"
    \<comment> \<open>the \<open>Scan\<close> method of a type that api.go does not declare: receiver and argument
        to the error returned and the receiver afterwards\<close>
  strconv_ParseInt :: "string \<Rightarrow> ('f, 't) error + 64 word"
    \<comment> \<open>\<open>strconv.ParseInt(s, 10, 64)\<close>\<close>
  strconv_ParseFloat :: "string \<Rightarrow> ('f, 't) error + 'f"
    \<comment> \<open>\<open>strconv.ParseFloat(s, 64)\<close>\<close>
  strconv_ParseBool :: "string \<Rightarrow> ('f, 't) error + bool"
  time_Parse :: "string \<Rightarrow> string \<Rightarrow> ('f, 't) error + 't"
    \<comment> \<open>\<open>time.Parse(layout, value)\<close>\<close>
  time_Format :: "'t \<Rightarrow> string \<Rightarrow> string"
    \<comment> \<open>\<open>t.Format(layout)\<close>\<close>
  float64_of_int64 :: "64 word \<Rightarrow> 'f"
    \<comment> \<open>the conversion \<open>float64(s)\<close>\<close>
  float64_eq :: "'f \<Rightarrow> 'f \<Rightarrow> bool"
    \<comment> \<open>\<open>==\<close> on \<open>float64\<close>\<close>
  float64_one :: 'f
    \<comment> \<open>the constant \<open>1.0\<close>; \<open>0.0\<close> is \<open>0\<close>\<close>
  Sprint_float64 :: "'f \<Rightarrow> string"
    \<comment> \<open>\<open>fmt.Sprint\<close> of a \<open>float64\<close>\<close>

definition is_lower :: "char \<Rightarrow> bool" where
  "is_lower c = (97 \<le> (of_char c :: nat) \<and> (of_char c :: nat) \<le> 122)"

definition ascii_upper :: "char \<Rightarrow> char" where
  "ascii_upper c = (if is_lower c then char_of ((of_char c :: nat) - 32) else c)"

text \<open>\<open>strings.ToUpper\<close>, as \<open>strings.ToLower\<close> above.\<close>

definition strings_ToUpper :: "(string \<Rightarrow> string) \<Rightarrow> string \<Rightarrow> string" where
  "strings_ToUpper U s = (if list_all is_ascii s then map ascii_upper s else U s)"

section \<open>SchemaCatalog: \<open>GetTable\<close>\<close>

text \<open>\<open>FieldType.Scan\<close>: the receiver after the call, and the error returned.\<close>

definition FieldType_Scan ::
  "(string \<Rightarrow> string) \<Rightarrow> FieldType \<Rightarrow> ('f, 't) iface
    \<Rightarrow> panic + (('f, 't) error option \<times> FieldType)" where
  "FieldType_Scan U t v =
     (case (case v of
              VBytes buf \<Rightarrow> Inr buf
            | VString str \<Rightarrow> Inr str
            | _ \<Rightarrow> Inl (ErrNotAcceptType v)) of
        Inl err \<Rightarrow> Inr (Some err, t)
      | Inr str \<Rightarrow>
          (case parseFieldType U str of
             Inl p \<Rightarrow> Inl p
           | Inr (n, c, l) \<Rightarrow> Inr (None, t\<lparr>ft_Name := n, ft_Value := c, ft_Length := l\<rparr>)))"

text \<open>\<open>FieldDefault.Scan\<close>; \<open>v.([]byte)\<close> panics on any other kind of value.\<close>

definition FieldDefault_Scan ::
  "FieldDefault \<Rightarrow> ('f, 't) iface \<Rightarrow> panic + (('f, 't) error option \<times> FieldDefault)" where
  "FieldDefault_Scan d v =
     (if v = VNil then Inr (None, d\<lparr>fd_Null := True, fd_Value := ''NULL''\<rparr>)
      else case v of
             VBytes b \<Rightarrow>
               (let d' = d\<lparr>fd_Null := False, fd_Value := b\<rparr>
                in Inr (None, if fd_Value d' = ''CURRENT_TIMESTAMP''
                              then d'\<lparr>fd_CurrentTimestamp := True\<rparr> else d'))
           | _ \<Rightarrow> Inl PanicTypeAssertion)"

definition parseNullable :: "(string \<Rightarrow> string) \<Rightarrow> string \<Rightarrow> bool" where
  "parseNullable U nullable = (strings_ToUpper U nullable = ''YES'')"

text \<open>
  One row of the catalog query, as the driver delivers it: the seven selected columns.
  The cursor is the rows that \<open>rows.Next\<close> reaches and what \<open>rows.Err\<close> says after them.
\<close>

record ('f, 't) catalog_row =
  COLUMN_NAME :: "('f, 't) iface"
  COLUMN_TYPE :: "('f, 't) iface"
  COLUMN_DEFAULT :: "('f, 't) iface"
  IS_NULLABLE :: "('f, 't) iface"
  COLUMN_KEY :: "('f, 't) iface"
  EXTRA :: "('f, 't) iface"
  COLUMN_COMMENT :: "('f, 't) iface"

record ('f, 't) cursor =
  cur_rows :: "('f, 't) catalog_row list"
  cur_err :: "('f, 't) error option"

definition zero_Field :: Field where
  "zero_Field = \<lparr>Name = [], FullName = [],
     Type = \<lparr>ft_Name = [], ft_Value = 0, ft_Length = 0\<rparr>, Null = False, Key = [],
     Default = \<lparr>fd_Null = False, fd_Value = [], fd_CurrentTimestamp = False\<rparr>,
     Extra = [], Comment = []\<rparr>"

text \<open>
  \<open>rows.Scan(&row.Name, &row.Type, &row.Default, &nullable, &row.Key, &row.Extra,
  &row.Comment)\<close> on a fresh \<open>row\<close>: the columns are stored from left to right, a
  \<open>Scan\<close> method is called where the destination has one, and the first error ends
  the call. The result is \<open>row\<close> and \<open>nullable\<close>.
\<close>

definition scan_catalog_row ::
  "('f, 't) lib \<Rightarrow> ('f, 't) catalog_row \<Rightarrow> panic + (('f, 't) error + (Field \<times> string))" where
  "scan_catalog_row L r =
     (case sql_string L (COLUMN_NAME r) of
        Inl err \<Rightarrow> Inr (Inl (sql_scan_error L 0 err))
      | Inr name \<Rightarrow>
     (case FieldType_Scan (unicode_ToLower L) (Type zero_Field) (COLUMN_TYPE r) of
        Inl p \<Rightarrow> Inl p
      | Inr (Some err, _) \<Rightarrow> Inr (Inl (sql_scan_error L 1 err))
      | Inr (None, ty) \<Rightarrow>
     (case FieldDefault_Scan (Default zero_Field) (COLUMN_DEFAULT r) of
        Inl p \<Rightarrow> Inl p
      | Inr (Some err, _) \<Rightarrow> Inr (Inl (sql_scan_error L 2 err))
      | Inr (None, dflt) \<Rightarrow>
     (case sql_string L (IS_NULLABLE r) of
        Inl err \<Rightarrow> Inr (Inl (sql_scan_error L 3 err))
      | Inr nullable \<Rightarrow>
     (case sql_string L (COLUMN_KEY r) of
        Inl err \<Rightarrow> Inr (Inl (sql_scan_error L 4 err))
      | Inr key \<Rightarrow>
     (case sql_string L (EXTRA r) of
        Inl err \<Rightarrow> Inr (Inl (sql_scan_error L 5 err))
      | Inr extra \<Rightarrow>
     (case sql_string L (COLUMN_COMMENT r) of
        Inl err \<Rightarrow> Inr (Inl (sql_scan_error L 6 err))
      | Inr comment \<Rightarrow>
          Inr (Inr (zero_Field\<lparr>Name := name, Type := ty, Default := dflt, Key := key,
                                Extra := extra, Comment := comment\<rparr>, nullable)))))))))"

text \<open>The loop \<open>for rows.Next()\<close> of \<open>GetTable\<close>, on the table and \<open>keys\<close> built so far.\<close>

fun GetTable_loop ::
  "('f, 't) lib \<Rightarrow> ('f, 't) catalog_row list \<Rightarrow> Table \<Rightarrow> string list
    \<Rightarrow> panic + (('f, 't) error + (Table \<times> string list))" where
  "GetTable_loop L [] table keys = Inr (Inr (table, keys))"
| "GetTable_loop L (r # rs) table keys =
     (case scan_catalog_row L r of
        Inl p \<Rightarrow> Inl p
      | Inr (Inl err) \<Rightarrow> Inr (Inl err)
      | Inr (Inr (row0, nullable)) \<Rightarrow>
          (let row1 = row0\<lparr>Null := parseNullable (unicode_ToUpper L) nullable\<rparr>;
               row = row1\<lparr>FullName := TbName table @ ''.'' @ [CHR 0x60] @ Name row1 @ [CHR 0x60]\<rparr>;
               keys' = keys @ [FullName row];
               table1 = table\<lparr>Fields := Fields table @ [row]\<rparr>;
               table2 = table1\<lparr>sqlArgMark := sqlArgMark table1 @ [''?'']\<rparr>;
               table3 = (if Key row = ''PRI'' then table2\<lparr>PrimaryKey := Name row\<rparr>
                         else if Key row = ''UNI''
                         then table2\<lparr>UniqueIndex := UniqueIndex table2 @ [Name row]\<rparr>
                         else table2)
           in GetTable_loop L rs table3 keys'))"

definition zero_Table :: Table where
  "zero_Table = \<lparr>DbName = [], TbName = [], Fields = [], PrimaryKey = [], UniqueIndex = [],
     Fullname = [], sqlInsert = [], sqlSelect = [], sqlDelete = [], sqlUpdate = [],
     sqlSelectCount = [], sqlArgMark = [], Len = 0\<rparr>"

text \<open>
  \<open>GetTable\<close>. \<open>res\<close> is what \<open>Query(query, db_name, tablename)\<close> returned for the
  catalog query, and \<open>db_name\<close> the package variable of that name.
\<close>

definition GetTable ::
  "('f, 't) lib \<Rightarrow> string \<Rightarrow> string \<Rightarrow> ('f, 't) error + ('f, 't) cursor
    \<Rightarrow> panic + (('f, 't) error + Table)" where
  "GetTable L db_name tablename res =
     (case res of
        Inl err \<Rightarrow> Inr (Inl err)
      | Inr rows \<Rightarrow>
          (case GetTable_loop L (cur_rows rows)
                  (zero_Table\<lparr>DbName := db_name, TbName := tablename\<rparr>) [] of
             Inl p \<Rightarrow> Inl p
           | Inr (Inl err) \<Rightarrow> Inr (Inl err)
           | Inr (Inr (table0, keys)) \<Rightarrow>
               (case cur_err rows of
                  Some err \<Rightarrow> Inr (Inl err)
                | None \<Rightarrow>
                    (let table1 = table0\<lparr>Len := int (length (Fields table0))\<rparr>
                     in if Len table1 = 0 then Inr (Inl (ErrColumnsNotFound tablename))
                        else
                          (let table2 = table1\<lparr>Fullname := DbName table1 @ ''.'' @ TbName table1\<rparr>;
                               table3 = table2\<lparr>sqlInsert := ''INSERT INTO '' @ Fullname table2\<rparr>;
                               table4 = table3\<lparr>sqlDelete := ''DELETE FROM '' @ Fullname table3\<rparr>;
                               table5 = table4\<lparr>sqlUpdate := ''UPDATE '' @ Fullname table4\<rparr>;
                               strKeys = strings_Join keys '','';
                               table6 = table5\<lparr>sqlSelect :=
                                 ''SELECT '' @ strKeys @ '' FROM '' @ Fullname table5 @ '' ''\<rparr>;
                               table7 = table6\<lparr>sqlSelectCount :=
                                 ''SELECT COUNT('' @ PrimaryKey table6 @ '') FROM '' @ Fullname table6\<rparr>
                           in Inr (Inr table7))))))"

section \<open>ValueConverter: the wrappers' methods and \<open>convertValue\<close>\<close>

text \<open>The two-valued type assertions \<open>value.(time.Time)\<close> and \<open>value.([]byte)\<close>.\<close>

definition assert_Time :: "('f, 't::zero) iface \<Rightarrow> 't \<times> bool" where
  "assert_Time v = (case v of VTime t \<Rightarrow> (t, True) | _ \<Rightarrow> (0, False))"

definition assert_Bytes :: "('f, 't) iface \<Rightarrow> string \<times> bool" where
  "assert_Bytes v = (case v of VBytes b \<Rightarrow> (b, True) | _ \<Rightarrow> ([], False))"

text \<open>\<open>NullTime.Scan\<close> and \<open>NullBytes.Scan\<close>: the error returned and the receiver afterwards.\<close>

definition NullTime_Scan ::
  "'t NullTime \<Rightarrow> ('f, 't::zero) iface \<Rightarrow> ('f, 't) error option \<times> 't NullTime" where
  "NullTime_Scan nt v =
     (let (t, ok) = assert_Time v in (None, nt\<lparr>nt_Time := t, nt_Valid := ok\<rparr>))"

definition NullBytes_Scan ::
  "NullBytes \<Rightarrow> ('f, 't) iface \<Rightarrow> ('f, 't) error option \<times> NullBytes" where
  "NullBytes_Scan nb v =
     (let (b, ok) = assert_Bytes v in (None, nb\<lparr>nb_Bytes := b, nb_Valid := ok\<rparr>))"

text \<open>
  The \<open>Value\<close> methods: \<open>NullTime.Value\<close> and \<open>NullBytes.Value\<close> of api.go, and those
  of the three wrappers of \<open>database/sql\<close>, which read the same. Their error is always nil.
\<close>

definition NullTime_Value :: "'t NullTime \<Rightarrow> ('f, 't) iface" where
  "NullTime_Value nt = (if \<not> nt_Valid nt then VNil else VTime (nt_Time nt))"

definition NullBytes_Value :: "NullBytes \<Rightarrow> ('f, 't) iface" where
  "NullBytes_Value nb = (if \<not> nb_Valid nb then VNil else VBytes (nb_Bytes nb))"

definition NullInt64_Value :: "NullInt64 \<Rightarrow> ('f, 't) iface" where
  "NullInt64_Value n = (if \<not> ni_Valid n then VNil else VInt64 (ni_Int64 n))"

definition NullString_Value :: "NullString \<Rightarrow> ('f, 't) iface" where
  "NullString_Value n = (if \<not> ns_Valid n then VNil else VString (ns_String n))"

definition NullFloat64_Value :: "'f NullFloat64 \<Rightarrow> ('f, 't) iface" where
  "NullFloat64_Value n = (if \<not> nf_Valid n then VNil else VFloat64 (nf_Float64 n))"

text \<open>
  \<open>src.(driver.Valuer)\<close>: \<open>None\<close> when the value has no \<open>Value\<close> method, otherwise what
  calling it gives. The wrappers' methods have value receivers, so a call through a
  nil pointer panics.
\<close>

definition as_Valuer :: "('f, 't) iface \<Rightarrow> (panic + ('f, 't) iface) option" where
  "as_Valuer src =
     (case src of
        PNullTime w \<Rightarrow>
          Some (case w of None \<Rightarrow> Inl PanicNilDereference | Some nt \<Rightarrow> Inr (NullTime_Value nt))
      | PNullBytes w \<Rightarrow>
          Some (case w of None \<Rightarrow> Inl PanicNilDereference | Some nb \<Rightarrow> Inr (NullBytes_Value nb))
      | PNullInt64 w \<Rightarrow>
          Some (case w of None \<Rightarrow> Inl PanicNilDereference | Some n \<Rightarrow> Inr (NullInt64_Value n))
      | PNullString w \<Rightarrow>
          Some (case w of None \<Rightarrow> Inl PanicNilDereference | Some n \<Rightarrow> Inr (NullString_Value n))
      | PNullFloat64 w \<Rightarrow>
          Some (case w of None \<Rightarrow> Inl PanicNilDereference | Some n \<Rightarrow> Inr (NullFloat64_Value n))
      | AValuer r \<Rightarrow> Some (Inr r)
      | _ \<Rightarrow> None)"

text \<open>\<open>dest.(sql.Scanner)\<close>: whether the value has a \<open>Scan\<close> method.\<close>

definition is_Scanner :: "('f, 't) iface \<Rightarrow> bool" where
  "is_Scanner dest =
     (case dest of
        PNullTime _ \<Rightarrow> True | PNullBytes _ \<Rightarrow> True | PNullInt64 _ \<Rightarrow> True
      | PNullString _ \<Rightarrow> True | PNullFloat64 _ \<Rightarrow> True | AScanner _ \<Rightarrow> True
      | _ \<Rightarrow> False)"

text \<open>
  \<open>d.Scan(src)\<close> for such a value: the error returned and the destination afterwards.
  The methods of api.go write through their receiver, so a nil receiver panics.
\<close>

definition Scanner_Scan ::
  "('f, 't::zero) lib \<Rightarrow> ('f, 't) iface \<Rightarrow> ('f, 't) iface
    \<Rightarrow> panic + (('f, 't) error option \<times> ('f, 't) iface)" where
  "Scanner_Scan L d src =
     (case d of
        PNullTime w \<Rightarrow>
          (case w of
             None \<Rightarrow> Inl PanicNilDereference
           | Some nt \<Rightarrow> (let (err, nt') = NullTime_Scan nt src in Inr (err, PNullTime (Some nt'))))
      | PNullBytes w \<Rightarrow>
          (case w of
             None \<Rightarrow> Inl PanicNilDereference
           | Some nb \<Rightarrow> (let (err, nb') = NullBytes_Scan nb src in Inr (err, PNullBytes (Some nb'))))
      | _ \<Rightarrow> foreign_Scan L d src)"

text \<open>\<open>fmt.Sprint\<close> of an \<open>int64\<close> and of a \<open>bool\<close>.\<close>

definition Sprint_int64 :: "64 word \<Rightarrow> string" where
  "Sprint_int64 s = fmt_d (sint s)"

definition Sprint_bool :: "bool \<Rightarrow> string" where
  "Sprint_bool b = (if b then ''true'' else ''false'')"

text \<open>
  The inner switches of \<open>convertValue\<close> on the destination, one for each plain kind of
  source. The result is the error returned and the destination afterwards; it is
  \<open>None\<close> when no case of the inner switch matches, where the code goes on to its last
  statement.
\<close>

definition from_int64 ::
  "('f, 't) lib \<Rightarrow> ('f, 't) iface \<Rightarrow> 64 word \<Rightarrow> (('f, 't) error option \<times> ('f, 't) iface) option" where
  "from_int64 L dest s =
     (case dest of
        PInt64 d \<Rightarrow>
          Some (if d = None then (Some ErrNilPtr, dest) else (None, PInt64 (Some s)))
      | PString d \<Rightarrow>
          Some (if d = None then (Some ErrNilPtr, dest) else (None, PString (Some (Sprint_int64 s))))
      | PBool d \<Rightarrow>
          Some (if d = None then (Some ErrNilPtr, dest)
                else if s = 0 then (None, PBool (Some False))
                else if s = 1 then (None, PBool (Some True))
                else (Some (ErrInt64ToBool s), dest))
      | PFloat64 d \<Rightarrow>
          Some (if d = None then (Some ErrNilPtr, dest)
                else (None, PFloat64 (Some (float64_of_int64 L s))))
      | _ \<Rightarrow> None)"

definition from_float64 ::
  "('f::zero, 't) lib \<Rightarrow> ('f, 't) iface \<Rightarrow> 'f \<Rightarrow> (('f, 't) error option \<times> ('f, 't) iface) option" where
  "from_float64 L dest s =
     (case dest of
        PFloat64 d \<Rightarrow>
          Some (if d = None then (Some ErrNilPtr, dest) else (None, PFloat64 (Some s)))
      | PString d \<Rightarrow>
          Some (if d = None then (Some ErrNilPtr, dest)
                else (None, PString (Some (Sprint_float64 L s))))
      | PBool d \<Rightarrow>
          Some (if d = None then (Some ErrNilPtr, dest)
                else if float64_eq L s 0 then (None, PBool (Some False))
                else if float64_eq L s (float64_one L) then (None, PBool (Some True))
                else (Some (ErrFloat64ToBool s), dest))
      | _ \<Rightarrow> None)"

definition from_bool ::
  "('f::zero, 't) lib \<Rightarrow> ('f, 't) iface \<Rightarrow> bool \<Rightarrow> (('f, 't) error option \<times> ('f, 't) iface) option" where
  "from_bool L dest s =
     (case dest of
        PBool d \<Rightarrow>
          Some (if d = None then (Some ErrNilPtr, dest) else (None, PBool (Some s)))
      | PString d \<Rightarrow>
          Some (if d = None then (Some ErrNilPtr, dest) else (None, PString (Some (Sprint_bool s))))
      | PFloat64 d \<Rightarrow>
          Some (if d = None then (Some ErrNilPtr, dest)
                else if s then (None, PFloat64 (Some (float64_one L)))
                else (None, PFloat64 (Some 0)))
      | PInt64 d \<Rightarrow>
          Some (if d = None then (Some ErrNilPtr, dest)
                else if s then (None, PInt64 (Some 1))
                else (None, PInt64 (Some 0)))
      | _ \<Rightarrow> None)"

definition from_string ::
  "('f, 't) lib \<Rightarrow> ('f, 't) iface \<Rightarrow> string \<Rightarrow> (('f, 't) error option \<times> ('f, 't) iface) option" where
  "from_string L dest s =
     (case dest of
        PString d \<Rightarrow>
          Some (if d = None then (Some ErrNilPtr, dest) else (None, PString (Some s)))
      | PInt64 d \<Rightarrow>
          Some (if d = None then (Some ErrNilPtr, dest)
                else case strconv_ParseInt L s of
                       Inl err \<Rightarrow> (Some err, dest)
                     | Inr v \<Rightarrow> (None, PInt64 (Some v)))
      | PFloat64 d \<Rightarrow>
          Some (if d = None then (Some ErrNilPtr, dest)
                else case strconv_ParseFloat L s of
                       Inl err \<Rightarrow> (Some err, dest)
                     | Inr v \<Rightarrow> (None, PFloat64 (Some v)))
      | PBool d \<Rightarrow>
          Some (if d = None then (Some ErrNilPtr, dest)
                else case strconv_ParseBool L s of
                       Inl err \<Rightarrow> (Some err, dest)
                     | Inr v \<Rightarrow> (None, PBool (Some v)))
      | PTime d \<Rightarrow>
          Some (if d = None then (Some ErrNilPtr, dest)
                else case time_Parse L ''2006-01-02 15:04:05'' s of
                       Inr v \<Rightarrow> (None, PTime (Some v))
                     | Inl err \<Rightarrow>
                         (case time_Parse L ''2006-01-02'' s of
                            Inl err \<Rightarrow> (Some err, dest)
                          | Inr v \<Rightarrow> (None, PTime (Some v))))
      | _ \<Rightarrow> None)"

definition from_time ::
  "('f, 't) lib \<Rightarrow> ('f, 't) iface \<Rightarrow> 't \<Rightarrow> (('f, 't) error option \<times> ('f, 't) iface) option" where
  "from_time L dest s =
     (case dest of
        PString d \<Rightarrow>
          Some (if d = None then (Some ErrNilPtr, dest)
                else (None, PString (Some (time_Format L s ''2006-01-02 15:04:05''))))
      | PTime d \<Rightarrow>
          Some (if d = None then (Some ErrNilPtr, dest) else (None, PTime (Some s)))
      | _ \<Rightarrow> None)"

text \<open>The number of calls \<open>convertValue\<close> can still make on a source.\<close>

definition src_rank :: "('f, 't) iface \<Rightarrow> nat" where
  "src_rank src =
     (case src of
        PInt64 _ \<Rightarrow> 2 | PBool _ \<Rightarrow> 2 | PFloat64 _ \<Rightarrow> 2 | PString _ \<Rightarrow> 2 | PTime _ \<Rightarrow> 2
      | PBytes _ \<Rightarrow> 2 | VBytes _ \<Rightarrow> 1 | _ \<Rightarrow> 0)"

definition after_Value :: "('f, 't) iface \<Rightarrow> panic + ('f, 't) iface" where
  "after_Value src = (case as_Valuer src of Some r \<Rightarrow> r | None \<Rightarrow> Inr src)"

text \<open>
  \<open>convertValue(dest, src)\<close>: the error returned and the destination afterwards.
  \<open>after_Value\<close> is the first statement, \<open>src, _ = s.Value()\<close> for a source with that
  method; the last line is the last statement, reached when no case returned.
\<close>

function convertValue ::
  "('f::zero, 't::zero) lib \<Rightarrow> ('f, 't) iface \<Rightarrow> ('f, 't) iface
    \<Rightarrow> panic + (('f, 't) error option \<times> ('f, 't) iface)" where
  "convertValue L dest src0 =
     (case after_Value src0 of
        Inl p \<Rightarrow> Inl p
      | Inr src \<Rightarrow>
          if is_Scanner dest then Scanner_Scan L dest src
          else
            (case (case src of
                PInt64 s \<Rightarrow>
                  (case s of None \<Rightarrow> Some (Inl PanicNilDereference)
                   | Some v \<Rightarrow> Some (convertValue L dest (VInt64 v)))
              | PBool s \<Rightarrow>
                  (case s of None \<Rightarrow> Some (Inl PanicNilDereference)
                   | Some v \<Rightarrow> Some (convertValue L dest (VBool v)))
              | PFloat64 s \<Rightarrow>
                  (case s of None \<Rightarrow> Some (Inl PanicNilDereference)
                   | Some v \<Rightarrow> Some (convertValue L dest (VFloat64 v)))
              | PString s \<Rightarrow>
                  (case s of None \<Rightarrow> Some (Inl PanicNilDereference)
                   | Some v \<Rightarrow> Some (convertValue L dest (VString v)))
              | PTime s \<Rightarrow>
                  (case s of None \<Rightarrow> Some (Inl PanicNilDereference)
                   | Some v \<Rightarrow> Some (convertValue L dest (VTime v)))
              | PBytes s \<Rightarrow>
                  (case s of None \<Rightarrow> Some (Inl PanicNilDereference)
                   | Some v \<Rightarrow> Some (convertValue L dest (VBytes v)))
              | VInt64 s \<Rightarrow> map_option Inr (from_int64 L dest s)
              | VFloat64 s \<Rightarrow> map_option Inr (from_float64 L dest s)
              | VBool s \<Rightarrow> map_option Inr (from_bool L dest s)
              | VString s \<Rightarrow> map_option Inr (from_string L dest s)
              | VBytes s \<Rightarrow>
                  (case dest of
                     PBytes d \<Rightarrow>
                       Some (Inr (if d = None then (Some ErrNilPtr, dest)
                                  else (None, PBytes (Some s))))
                   | _ \<Rightarrow> Some (convertValue L dest (VString s)))
              | VTime s \<Rightarrow> map_option Inr (from_time L dest s)
              | _ \<Rightarrow> None) of
               Some r \<Rightarrow> r
             | None \<Rightarrow> Inr (Some (ErrConvertType src dest), dest)))"
  by pat_completeness auto

termination convertValue
  apply (relation "measure (\<lambda>(L, dest, src0).
           src_rank (case after_Value src0 of Inr s \<Rightarrow> s | Inl _ \<Rightarrow> src0))")
   apply (auto simp: src_rank_def after_Value_def as_Valuer_def
               split: iface.splits option.splits sum.splits)
  done

declare convertValue.simps [simp del]

section \<open>ResultMapper: \<open>Row.Scan\<close>\<close>

text \<open>
  The loop of \<open>Row.Scan\<close> over \<open>dest\<close>, from index \<open>i\<close> on: a nil destination is
  skipped, any other receives \<open>convertValue(dest[i], scans[i])\<close>, and the first error
  ends the loop. The result is the error returned and the destinations afterwards.
\<close>

fun Scan_loop ::
  "('f::zero, 't::zero) lib \<Rightarrow> ('f, 't) iface list \<Rightarrow> ('f, 't) iface list \<Rightarrow> nat
    \<Rightarrow> panic + (('f, 't) error option \<times> ('f, 't) iface list)" where
  "Scan_loop L scans [] i = Inr (None, [])"
| "Scan_loop L scans (d # ds) i =
     (if d = VNil
      then (case Scan_loop L scans ds (Suc i) of
              Inl p \<Rightarrow> Inl p
            | Inr (err, ds') \<Rightarrow> Inr (err, d # ds'))
      else if i < length scans
      then (case convertValue L d (scans ! i) of
              Inl p \<Rightarrow> Inl p
            | Inr (Some err, d') \<Rightarrow> Inr (Some err, d' # ds)
            | Inr (None, d') \<Rightarrow>
                (case Scan_loop L scans ds (Suc i) of
                   Inl p \<Rightarrow> Inl p
                 | Inr (err, ds') \<Rightarrow> Inr (err, d' # ds')))
      else Inl (PanicIndexOutOfRange i (length scans)))"

text \<open>
  \<open>Row.Scan\<close>. \<open>Scan\<close> is the \<open>Scan\<close> of the embedded \<open>*sql.Row\<close>: from the cursor
  and the scratch cells to its error and the cells as it leaves them.
\<close>

definition Row_Scan ::
  "('f::zero, 't::zero) lib
    \<Rightarrow> ('c \<Rightarrow> ('f, 't) iface list \<Rightarrow> panic + (('f, 't) error option \<times> ('f, 't) iface list))
    \<Rightarrow> 'c Row \<Rightarrow> ('f, 't) iface list
    \<Rightarrow> panic + (('f, 't) error option \<times> ('f, 't) iface list)" where
  "Row_Scan L Scan r dest =
     (case makeNullableScans (row_t r) of
        Inl p \<Rightarrow> Inl p
      | Inr scans0 \<Rightarrow>
          (case Scan (row_Row r) scans0 of
             Inl p \<Rightarrow> Inl p
           | Inr (Some err, scans) \<Rightarrow> Inr (Some err, dest)
           | Inr (None, scans) \<Rightarrow> Scan_loop L scans dest 0))"

section \<open>Notions used to state the properties\<close>

text \<open>The positions of a positional argument list that hold a value other than nil.\<close>

definition nonnil_positions :: "('f, 't) iface list \<Rightarrow> nat list" where
  "nonnil_positions args = filter (\<lambda>i. args ! i \<noteq> VNil) [0..<length args]"

text \<open>How often a byte occurs in a string.\<close>

definition count_char :: "char \<Rightarrow> string \<Rightarrow> nat" where
  "count_char c s = length (filter (\<lambda>x. x = c) s)"

text \<open>
  A stand-in for the library, to run the model on concrete inputs. Times are numbers:
  a value parses under a layout when it has digits exactly where the layout has them and
  the layout's other bytes elsewhere, and its time is then the number of its digits.
\<close>

definition digit_shape :: "string \<Rightarrow> string" where
  "digit_shape s = map (\<lambda>c. if is_digit c then CHR ''0'' else c) s"

definition demo_lib :: "(int, nat) lib" where
  "demo_lib = \<lparr>
     unicode_ToLower = id,
     unicode_ToUpper = id,
     sql_string = (\<lambda>v. case v of VString s \<Rightarrow> Inr s | VBytes b \<Rightarrow> Inr b
                         | _ \<Rightarrow> Inl (ErrLib ''unsupported Scan'')),
     sql_scan_error = (\<lambda>i err. err),
     foreign_Scan = (\<lambda>d v. Inr (None, d)),
     strconv_ParseInt = (\<lambda>s. Inl (ErrLib ''invalid syntax'')),
     strconv_ParseFloat = (\<lambda>s. Inl (ErrLib ''invalid syntax'')),
     strconv_ParseBool = (\<lambda>s. Inl (ErrLib ''invalid syntax'')),
     time_Parse = (\<lambda>layout v. if digit_shape v = digit_shape layout
                               then Inr (length (filter is_digit v))
                               else Inl (ErrLib (''cannot parse as '' @ layout))),
     time_Format = (\<lambda>t layout. layout),
     float64_of_int64 = sint,
     float64_eq = (=),
     float64_one = 1,
     Sprint_float64 = fmt_d\<rparr>"

text \<open>A catalog of three columns \<open>id\<close>, \<open>name\<close>, \<open>score\<close> for a table \<open>users\<close>.\<close>

definition demo_column :: "string \<Rightarrow> string \<Rightarrow> string \<Rightarrow> (int, nat) catalog_row" where
  "demo_column name ty key = \<lparr>COLUMN_NAME = VBytes name, COLUMN_TYPE = VBytes ty,
     COLUMN_DEFAULT = VNil, IS_NULLABLE = VBytes ''NO'', COLUMN_KEY = VBytes key,
     EXTRA = VBytes [], COLUMN_COMMENT = VBytes []\<rparr>"

definition demo_cursor :: "(int, nat) cursor" where
  "demo_cursor = \<lparr>cur_rows = [demo_column ''id'' ''int(11)'' ''PRI'',
                               demo_column ''name'' ''varchar(255)'' ''UNI'',
                               demo_column ''score'' ''int(11)'' []],
                   cur_err = None\<rparr>"

definition demo_field :: "string \<Rightarrow> FieldType \<Rightarrow> string \<Rightarrow> Field" where
  "demo_field name ty key = \<lparr>Name = name,
     FullName = ''users.'' @ [CHR 0x60] @ name @ [CHR 0x60], Type = ty, Null = False, Key = key,
     Default = \<lparr>fd_Null = True, fd_Value = ''NULL'', fd_CurrentTimestamp = False\<rparr>,
     Extra = [], Comment = []\<rparr>"

definition demo_table :: Table where
  "demo_table = \<lparr>DbName = ''app'', TbName = ''users'',
     Fields = [demo_field ''id'' \<lparr>ft_Name = ''int'', ft_Value = TypeInt, ft_Length = 11\<rparr> ''PRI'',
               demo_field ''name''
                 \<lparr>ft_Name = ''varchar'', ft_Value = TypeVarchar, ft_Length = 255\<rparr> ''UNI'',
               demo_field ''score'' \<lparr>ft_Name = ''int'', ft_Value = TypeInt, ft_Length = 11\<rparr> []],
     PrimaryKey = ''id'', UniqueIndex = [''name''], Fullname = ''app.users'',
     sqlInsert = ''INSERT INTO app.users'',
     sqlSelect = ''SELECT users.'' @ [CHR 0x60] @ ''id'' @ [CHR 0x60] @ '',users.'' @ [CHR 0x60]
       @ ''name'' @ [CHR 0x60] @ '',users.'' @ [CHR 0x60] @ ''score'' @ [CHR 0x60]
       @ '' FROM app.users '',
     sqlDelete = ''DELETE FROM app.users'', sqlUpdate = ''UPDATE app.users'',
     sqlSelectCount = ''SELECT COUNT(id) FROM app.users'',
     sqlArgMark = [''?'', ''?'', ''?''], Len = 3\<rparr>"

text \<open>The scratch cells of a row of \<open>users\<close> whose \<open>name\<close> and \<open>score\<close> are NULL.\<close>

definition demo_scans :: "(int, nat) iface list" where
  "demo_scans = [PNullInt64 (Some \<lparr>ni_Int64 = 7, ni_Valid = True\<rparr>),
                 PNullString (Some \<lparr>ns_String = [], ns_Valid = False\<rparr>),
                 PNullInt64 (Some \<lparr>ni_Int64 = 0, ni_Valid = False\<rparr>)]"

section \<open>Properties\<close>

lemmas Type_defs =
  TypeInt_def TypeBigint_def TypeFloat_def TypeDouble_def TypeDecimal_def
  TypeChar_def TypeVarchar_def TypeText_def TypeMediumText_def TypeLongtext_def
  TypeDate_def TypeDatetime_def TypeYear_def TypeTime_def TypeTimestamp_def

lemmas char_simps = is_ascii_def ascii_lower_def is_upper_def

subsection \<open>TypeCoder\<close>

lemma ascii_lower_ascii: "is_ascii (ascii_lower c) = is_ascii c"
  unfolding is_ascii_def ascii_lower_def is_upper_def
  by (simp add: of_char_of)

lemma map_ascii_lower_ascii: "list_all is_ascii (map ascii_lower s) = list_all is_ascii s"
  by (induction s) (simp_all add: ascii_lower_ascii)

lemma strings_ToLower_eq:
  assumes "map ascii_lower s = name" and "list_all is_ascii name"
  shows "strings_ToLower U s = name"
proof -
  from assms have "list_all is_ascii s"
    using map_ascii_lower_ascii [of s] by simp
  with assms(1) show ?thesis by (simp add: strings_ToLower_def)
qed

lemma parseDbType_of_lower:
  assumes "strings_ToLower U s = name"
  shows "parseDbType U s =
     (if name = ''int'' then Inr TypeInt
      else if name = ''bigint'' then Inr TypeBigint
      else if name = ''float'' then Inr TypeFloat
      else if name = ''double'' then Inr TypeDouble
      else if name = ''decimal'' then Inr TypeDecimal
      else if name = ''char'' then Inr TypeChar
      else if name = ''varchar'' then Inr TypeVarchar
      else if name = ''text'' then Inr TypeText
      else if name = ''mediumtext'' then Inr TypeMediumText
      else if name = ''longtext'' then Inr TypeLongtext
      else if name = ''date'' then Inr TypeDate
      else if name = ''datetime'' then Inr TypeDatetime
      else if name = ''year'' then Inr TypeYear
      else if name = ''timestamp'' then Inr TypeTimestamp
      else if name = ''time'' then Inr TypeTime
      else Inl (PanicParseTypeName s))"
  using assms by (simp add: parseDbType_def Let_def)

lemma roundtrip_one:
  assumes f: "formatDbType c = Inr name" and a: "list_all is_ascii name"
    and p: "\<And>s. strings_ToLower U s = name \<Longrightarrow> parseDbType U s = Inr c"
    and l: "map ascii_lower name = name"
  shows "\<exists>name. formatDbType c = Inr name \<and> parseDbType U name = Inr c
           \<and> (\<forall>s. map ascii_lower s = name \<longrightarrow> parseDbType U s = Inr c)"
proof (intro exI conjI allI impI)
  show "formatDbType c = Inr name" by (rule f)
  show "parseDbType U name = Inr c" by (rule p) (rule strings_ToLower_eq [OF l a])
  fix s assume "map ascii_lower s = name"
  then show "parseDbType U s = Inr c" by (intro p strings_ToLower_eq a)
qed

text \<open>
  C6. For every type code \<open>c\<close> of the fifteen, \<open>formatDbType c\<close> returns a name, without
  a panic, and \<open>parseDbType\<close> of that name returns \<open>c\<close>. \<open>parseDbType\<close> does not look
  at the case of letters: every string that differs from the name only in the case of
  its ASCII letters parses to \<open>c\<close> as well.
\<close>

theorem parseDbType_formatDbType:
  assumes "c \<in> {TypeInt, TypeBigint, TypeFloat, TypeDouble, TypeDecimal, TypeChar, TypeVarchar,
                 TypeText, TypeMediumText, TypeLongtext, TypeDate, TypeDatetime, TypeYear,
                 TypeTime, TypeTimestamp}"
  shows "\<exists>name. formatDbType c = Inr name \<and> parseDbType U name = Inr c
           \<and> (\<forall>s. map ascii_lower s = name \<longrightarrow> parseDbType U s = Inr c)"
proof -
  from assms consider "c = TypeInt" | "c = TypeBigint" | "c = TypeFloat" | "c = TypeDouble"
    | "c = TypeDecimal" | "c = TypeChar" | "c = TypeVarchar" | "c = TypeText"
    | "c = TypeMediumText" | "c = TypeLongtext" | "c = TypeDate" | "c = TypeDatetime"
    | "c = TypeYear" | "c = TypeTime" | "c = TypeTimestamp"
    by auto
  then show ?thesis
  proof cases
    case 1 show ?thesis
      by (rule roundtrip_one [where name = "''int''"])
         (simp_all add: 1 formatDbType_def parseDbType_of_lower char_simps Type_defs)
  next
    case 2 show ?thesis
      by (rule roundtrip_one [where name = "''bigint''"])
         (simp_all add: 2 formatDbType_def parseDbType_of_lower char_simps Type_defs)
  next
    case 3 show ?thesis
      by (rule roundtrip_one [where name = "''float''"])
         (simp_all add: 3 formatDbType_def parseDbType_of_lower char_simps Type_defs)
  next
    case 4 show ?thesis
      by (rule roundtrip_one [where name = "''double''"])
         (simp_all add: 4 formatDbType_def parseDbType_of_lower char_simps Type_defs)
  next
    case 5 show ?thesis
      by (rule roundtrip_one [where name = "''decimal''"])
         (simp_all add: 5 formatDbType_def parseDbType_of_lower char_simps Type_defs)
  next
    case 6 show ?thesis
      by (rule roundtrip_one [where name = "''char''"])
         (simp_all add: 6 formatDbType_def parseDbType_of_lower char_simps Type_defs)
  next
    case 7 show ?thesis
      by (rule roundtrip_one [where name = "''varchar''"])
         (simp_all add: 7 formatDbType_def parseDbType_of_lower char_simps Type_defs)
  next
    case 8 show ?thesis
      by (rule roundtrip_one [where name = "''text''"])
         (simp_all add: 8 formatDbType_def parseDbType_of_lower char_simps Type_defs)
  next
    case 9 show ?thesis
      by (rule roundtrip_one [where name = "''mediumtext''"])
         (simp_all add: 9 formatDbType_def parseDbType_of_lower char_simps Type_defs)
  next
    case 10 show ?thesis
      by (rule roundtrip_one [where name = "''longtext''"])
         (simp_all add: 10 formatDbType_def parseDbType_of_lower char_simps Type_defs)
  next
    case 11 show ?thesis
      by (rule roundtrip_one [where name = "''date''"])
         (simp_all add: 11 formatDbType_def parseDbType_of_lower char_simps Type_defs)
  next
    case 12 show ?thesis
      by (rule roundtrip_one [where name = "''datetime''"])
         (simp_all add: 12 formatDbType_def parseDbType_of_lower char_simps Type_defs)
  next
    case 13 show ?thesis
      by (rule roundtrip_one [where name = "''year''"])
         (simp_all add: 13 formatDbType_def parseDbType_of_lower char_simps Type_defs)
  next
    case 14 show ?thesis
      by (rule roundtrip_one [where name = "''time''"])
         (simp_all add: 14 formatDbType_def parseDbType_of_lower char_simps Type_defs)
  next
    case 15 show ?thesis
      by (rule roundtrip_one [where name = "''timestamp''"])
         (simp_all add: 15 formatDbType_def parseDbType_of_lower char_simps Type_defs)
  qed
qed

text \<open>The code of \<open>varchar\<close>, and the name written \<open>VarChar\<close>.\<close>

theorem parseDbType_formatDbType_witness:
  "TypeVarchar \<in> {TypeInt, TypeBigint, TypeFloat, TypeDouble, TypeDecimal, TypeChar, TypeVarchar,
                 TypeText, TypeMediumText, TypeLongtext, TypeDate, TypeDatetime, TypeYear,
                 TypeTime, TypeTimestamp}
   \<and> formatDbType TypeVarchar = Inr ''varchar''
   \<and> parseDbType id ''varchar'' = Inr TypeVarchar
   \<and> parseDbType id ''VarChar'' = Inr TypeVarchar"
proof -
  have m: "TypeVarchar \<in> {TypeInt, TypeBigint, TypeFloat, TypeDouble, TypeDecimal, TypeChar,
                 TypeVarchar, TypeText, TypeMediumText, TypeLongtext, TypeDate, TypeDatetime,
                 TypeYear, TypeTime, TypeTimestamp}"
    by simp
  have f: "formatDbType TypeVarchar = Inr ''varchar''"
    by (simp add: formatDbType_def Type_defs)
  have l: "map ascii_lower ''VarChar'' = ''varchar''"
    by code_simp
  from parseDbType_formatDbType [OF m, of id] f l
  have "parseDbType id ''varchar'' = Inr TypeVarchar \<and> parseDbType id ''VarChar'' = Inr TypeVarchar"
    by auto
  with m f show ?thesis by simp
qed

text \<open>
  C7. The type clause of a field in the DDL is \<open>FieldType.ToSql\<close> of its type, the
  second word of the field's line. It is the bare type name when the code is one of
  Date, Datetime, Year, Time, Timestamp, Text, MediumText, Longtext, and otherwise the
  type name followed by the length, in decimal, between parentheses.
\<close>

theorem FieldType_ToSql_clause:
  "FieldType_ToSql (Type r) =
     (if ft_Value (Type r) \<in> {TypeDate, TypeDatetime, TypeYear, TypeTime, TypeTimestamp,
                               TypeText, TypeMediumText, TypeLongtext}
      then ft_Name (Type r)
      else ft_Name (Type r) @ ''('' @ fmt_d (ft_Length (Type r)) @ '')'')
   \<and> (\<exists>rest. Field_ToSql r =
         [CHR 0x60] @ Name r @ [CHR 0x60] @ '' '' @ FieldType_ToSql (Type r) @ '' '' @ rest)"
proof
  show "FieldType_ToSql (Type r) =
     (if ft_Value (Type r) \<in> {TypeDate, TypeDatetime, TypeYear, TypeTime, TypeTimestamp,
                               TypeText, TypeMediumText, TypeLongtext}
      then ft_Name (Type r)
      else ft_Name (Type r) @ ''('' @ fmt_d (ft_Length (Type r)) @ '')'')"
    by (simp add: FieldType_ToSql_def)
  show "\<exists>rest. Field_ToSql r =
         [CHR 0x60] @ Name r @ [CHR 0x60] @ '' '' @ FieldType_ToSql (Type r) @ '' '' @ rest"
    by (simp add: Field_ToSql_def Let_def)
qed

text \<open>A \<open>varchar(255)\<close> column and a \<open>text\<close> column.\<close>

theorem FieldType_ToSql_clause_witness:
  "FieldType_ToSql \<lparr>ft_Name = ''varchar'', ft_Value = TypeVarchar, ft_Length = 255\<rparr>
     = ''varchar(255)''
   \<and> FieldType_ToSql \<lparr>ft_Name = ''text'', ft_Value = TypeText, ft_Length = 0\<rparr> = ''text''"
proof -
  have d: "fmt_d 255 = ''255''" by code_simp
  have n: "Type (demo_field ''c'' ty []) = ty" for ty
    by (simp add: demo_field_def)
  from FieldType_ToSql_clause
         [of "demo_field ''c'' \<lparr>ft_Name = ''varchar'', ft_Value = TypeVarchar, ft_Length = 255\<rparr> []"]
       FieldType_ToSql_clause
         [of "demo_field ''c'' \<lparr>ft_Name = ''text'', ft_Value = TypeText, ft_Length = 0\<rparr> []"]
  show ?thesis
    by (simp add: n d Type_defs)
qed

subsection \<open>QueryBuilder and SchemaCatalog\<close>

lemma nth_Cons_shift: "i < j \<Longrightarrow> (a # as) ! (j - i) = as ! (j - Suc i)"
proof -
  assume "i < j"
  then have "j - i = Suc (j - Suc i)" by arith
  then show ?thesis by simp
qed

lemma shifted_filter:
  "filter (\<lambda>j. (a # as) ! (j - i) \<noteq> VNil) [Suc i..<n]
     = filter (\<lambda>j. as ! (j - Suc i) \<noteq> VNil) [Suc i..<n]"
  by (rule filter_cong [OF refl]) (simp add: nth_Cons_shift)

lemma shifted_map:
  "map (\<lambda>j. (a # as) ! (j - i)) (filter P [Suc i..<n])
     = map (\<lambda>j. as ! (j - Suc i)) (filter P [Suc i..<n])"
  by (rule map_cong [OF refl]) (simp add: nth_Cons_shift)

lemma listwhere_loop_run:
  "n = i + length as \<Longrightarrow> n \<le> length fs \<Longrightarrow>
   listwhere_loop fs as i lw lp =
     Inr (lw @ map (\<lambda>j. FullName (fs ! j) @ ''=?'')
                 (filter (\<lambda>j. as ! (j - i) \<noteq> VNil) [i..<n]),
          lp @ map (\<lambda>j. as ! (j - i)) (filter (\<lambda>j. as ! (j - i) \<noteq> VNil) [i..<n]))"
proof (induction as arbitrary: i lw lp)
  case Nil
  then show ?case by simp
next
  case (Cons a as)
  from Cons.prems have n: "n = Suc i + length as" and lt: "i < length fs" and "i < n"
    by simp_all
  from \<open>i < n\<close> have range: "[i..<n] = i # [Suc i..<n]"
    by (rule upt_conv_Cons)
  show ?case
  proof (cases "a = VNil")
    case True
    then show ?thesis
      using Cons.IH [OF n Cons.prems(2), of lw lp]
      by (simp add: range shifted_filter shifted_map)
  next
    case False
    then show ?thesis
      using Cons.IH [OF n Cons.prems(2), of "lw @ [FullName (fs ! i) @ ''=?'']" "lp @ [a]"] lt
      by (simp add: range shifted_filter shifted_map)
  qed
qed

lemma listwhere_loop_positions:
  assumes "length args \<le> length fs"
  shows "listwhere_loop fs args 0 [] [] =
     Inr (map (\<lambda>i. FullName (fs ! i) @ ''=?'') (nonnil_positions args),
          map (\<lambda>i. args ! i) (nonnil_positions args))"
  using listwhere_loop_run [of "length args" 0 args fs "[]" "[]"] assms
  by (simp add: nonnil_positions_def)

lemma listcolname_loop_run:
  "n = i + length vs \<Longrightarrow> n \<le> length fs \<Longrightarrow>
   listcolname_loop fs vs i lc lp =
     Inr (lc @ map (\<lambda>j. FullName (fs ! j))
                 (filter (\<lambda>j. vs ! (j - i) \<noteq> VNil) [i..<n]),
          lp @ map (\<lambda>j. vs ! (j - i)) (filter (\<lambda>j. vs ! (j - i) \<noteq> VNil) [i..<n]))"
proof (induction vs arbitrary: i lc lp)
  case Nil
  then show ?case by simp
next
  case (Cons a as)
  from Cons.prems have n: "n = Suc i + length as" and lt: "i < length fs" and "i < n"
    by simp_all
  from \<open>i < n\<close> have range: "[i..<n] = i # [Suc i..<n]"
    by (rule upt_conv_Cons)
  show ?case
  proof (cases "a = VNil")
    case True
    then show ?thesis
      using Cons.IH [OF n Cons.prems(2), of lc lp]
      by (simp add: range shifted_filter shifted_map)
  next
    case False
    then show ?thesis
      using Cons.IH [OF n Cons.prems(2), of "lc @ [FullName (fs ! i)]" "lp @ [a]"] lt
      by (simp add: range shifted_filter shifted_map)
  qed
qed

lemma listcolname_loop_positions:
  assumes "length values \<le> length fs"
  shows "listcolname_loop fs values 0 [] [] =
     Inr (map (\<lambda>i. FullName (fs ! i)) (nonnil_positions values),
          map (\<lambda>i. values ! i) (nonnil_positions values))"
  using listcolname_loop_run [of "length values" 0 "values" fs "[]" "[]"] assms
  by (simp add: nonnil_positions_def)

lemma listwhere_loop_all_nil:
  "listwhere_loop fs (replicate n VNil) i lw lp = Inr (lw, lp)"
  by (induction n arbitrary: i) simp_all

lemma length_nonnil_positions: "length (nonnil_positions args) \<le> length args"
  unfolding nonnil_positions_def
  using length_filter_le [of "\<lambda>i. args ! i \<noteq> VNil" "[0..<length args]"] by simp

lemma strings_Join_Cons:
  "strings_Join (x # xs) sep = (if xs = [] then x else x @ sep @ strings_Join xs sep)"
  by (cases xs) simp_all

lemma count_char_Join_marks:
  "count_char (CHR ''?'') (strings_Join (replicate n ''?'') '', '') = n"
proof (induction n)
  case 0
  show ?case by (simp add: count_char_def)
next
  case (Suc n)
  then show ?case
    by (cases n) (simp_all add: strings_Join_Cons count_char_def)
qed

lemma GetTable_loop_inv:
  "GetTable_loop L rs table keys = Inr (Inr (table', keys')) \<Longrightarrow>
   Fields table' \<noteq> [] = (Fields table \<noteq> [] \<or> rs \<noteq> [])
   \<and> length (Fields table') = length (Fields table) + length rs
   \<and> sqlArgMark table' = sqlArgMark table @ replicate (length rs) ''?''"
proof (induction rs arbitrary: table keys)
  case Nil
  then show ?case by simp
next
  case (Cons r rs)
  from Cons.prems obtain row0 nullable where
    s: "scan_catalog_row L r = Inr (Inr (row0, nullable))"
    by (auto split: sum.splits)
  define row where "row = row0\<lparr>Null := parseNullable (unicode_ToUpper L) nullable,
    FullName := TbName table @ ''.'' @ [CHR 0x60] @ Name row0 @ [CHR 0x60]\<rparr>"
  define table2 where "table2 = table\<lparr>Fields := Fields table @ [row],
    sqlArgMark := sqlArgMark table @ [''?'']\<rparr>"
  define table3 where "table3 = (if Key row = ''PRI'' then table2\<lparr>PrimaryKey := Name row\<rparr>
     else if Key row = ''UNI'' then table2\<lparr>UniqueIndex := UniqueIndex table2 @ [Name row]\<rparr>
     else table2)"
  have t3: "Fields table3 = Fields table @ [row]" "sqlArgMark table3 = sqlArgMark table @ [''?'']"
    by (simp_all add: table3_def table2_def)
  from s have "GetTable_loop L (r # rs) table keys
                 = GetTable_loop L rs table3 (keys @ [FullName row])"
    by (simp add: Let_def row_def table2_def table3_def)
  with Cons.prems
  have "GetTable_loop L rs table3 (keys @ [FullName row]) = Inr (Inr (table', keys'))"
    by simp
  from Cons.IH [OF this] show ?case
    by (simp add: t3 replicate_app_Cons_same)
qed

lemma GetTable_inv:
  assumes "GetTable L db_name tablename res = Inr (Inr t)"
  shows "Fields t \<noteq> [] \<and> Len t = int (length (Fields t))
         \<and> sqlArgMark t = replicate (length (Fields t)) ''?''"
proof -
  from assms obtain rows table0 keys where
    res: "res = Inr rows"
    and loop: "GetTable_loop L (cur_rows rows) (zero_Table\<lparr>DbName := db_name, TbName := tablename\<rparr>) []
                 = Inr (Inr (table0, keys))"
    and ne: "length (Fields table0) \<noteq> 0"
    and t: "Fields t = Fields table0" "sqlArgMark t = sqlArgMark table0"
           "Len t = int (length (Fields table0))"
    by (auto simp: GetTable_def Let_def split: sum.splits option.splits if_splits)
  from GetTable_loop_inv [OF loop]
  have "sqlArgMark table0 = replicate (length (Fields table0)) ''?''"
    by (simp add: zero_Table_def)
  with ne t show ?thesis by simp
qed

lemma GetTable_no_rows:
  "GetTable L db_name tablename (Inr \<lparr>cur_rows = [], cur_err = e\<rparr>) =
     Inr (Inl (case e of Some err \<Rightarrow> err | None \<Rightarrow> ErrColumnsNotFound tablename))"
  by (simp add: GetTable_def Let_def zero_Table_def split: option.splits)

lemma demo_GetTable:
  "GetTable demo_lib ''app'' ''users'' (Inr demo_cursor) = Inr (Inr demo_table)"
  by code_simp

text \<open>
  C5. When the catalog query returns no row, \<open>GetTable\<close> returns the error
  \<open>the table (...) columns no found\<close>, and whatever \<open>rows.Err\<close> says it returns an error
  and no table. Every table that \<open>GetTable\<close> returns has at least one field, its
  \<open>Len\<close> is the length of \<open>Fields\<close>, and \<open>sqlArgMark\<close> holds that many \<open>?\<close>.
\<close>

theorem GetTable_columns:
  "(cur_rows rows = [] \<and> cur_err rows = None \<longrightarrow>
      GetTable L db_name tablename (Inr rows) = Inr (Inl (ErrColumnsNotFound tablename)))
   \<and> (cur_rows rows = [] \<longrightarrow> (\<exists>err. GetTable L db_name tablename (Inr rows) = Inr (Inl err)))
   \<and> (GetTable L db_name tablename res = Inr (Inr t) \<longrightarrow>
        1 \<le> length (Fields t) \<and> Len t = int (length (Fields t))
        \<and> sqlArgMark t = replicate (length (Fields t)) ''?'')"
proof (intro conjI impI)
  assume "cur_rows rows = [] \<and> cur_err rows = None"
  then have "rows = \<lparr>cur_rows = [], cur_err = None\<rparr>" by simp
  then show "GetTable L db_name tablename (Inr rows) = Inr (Inl (ErrColumnsNotFound tablename))"
    by (simp add: GetTable_no_rows)
next
  assume "cur_rows rows = []"
  then have "rows = \<lparr>cur_rows = [], cur_err = cur_err rows\<rparr>" by simp
  then have "GetTable L db_name tablename (Inr rows) =
     Inr (Inl (case cur_err rows of Some err \<Rightarrow> err | None \<Rightarrow> ErrColumnsNotFound tablename))"
    using GetTable_no_rows [of L db_name tablename "cur_err rows"] by simp
  then show "\<exists>err. GetTable L db_name tablename (Inr rows) = Inr (Inl err)" ..
next
  assume "GetTable L db_name tablename res = Inr (Inr t)"
  from GetTable_inv [OF this]
  show "1 \<le> length (Fields t)" and "Len t = int (length (Fields t))"
    and "sqlArgMark t = replicate (length (Fields t)) ''?''"
    by (simp_all add: Suc_le_eq)
qed

text \<open>An empty catalog for \<open>nonexistent\<close>, and the three columns of \<open>users\<close>.\<close>

theorem GetTable_columns_witness:
  "GetTable demo_lib ''app'' ''nonexistent'' (Inr \<lparr>cur_rows = [], cur_err = None\<rparr>)
     = Inr (Inl (ErrColumnsNotFound ''nonexistent''))
   \<and> GetTable demo_lib ''app'' ''users'' (Inr demo_cursor) = Inr (Inr demo_table)
   \<and> length (Fields demo_table) = 3 \<and> Len demo_table = 3
   \<and> sqlArgMark demo_table = [''?'', ''?'', ''?'']"
proof -
  have e: "cur_rows \<lparr>cur_rows = [], cur_err = None :: (int, nat) error option\<rparr> = []
           \<and> cur_err \<lparr>cur_rows = [], cur_err = None :: (int, nat) error option\<rparr> = None"
    by simp
  have n: "length (Fields demo_table) = 3"
    by (simp add: demo_table_def)
  from GetTable_columns [of "\<lparr>cur_rows = [], cur_err = None\<rparr>" demo_lib "''app''" "''nonexistent''"]
       GetTable_columns [of _ demo_lib "''app''" "''users''" "Inr demo_cursor" demo_table]
       e demo_GetTable n
  show ?thesis
    by (simp add: numeral_3_eq_3)
qed

text \<open>
  A value that is not nil at an index beyond the fields has no field to read: the loops
  panic on \<open>t.Fields[i]\<close>, and no statement is made.
\<close>

lemma Add_beyond_fields:
  "Add Exec demo_table [VInt64 1, VString ''x'', VInt64 5, VInt64 7] = Inl (PanicIndexOutOfRange 3 3)"
  by (simp add: Add_def demo_table_def)

lemma Get_beyond_fields:
  "Get QueryRow demo_table [VNil, VNil, VNil, VInt64 7] = Inl (PanicIndexOutOfRange 3 3)"
  by (simp add: Get_def demo_table_def)

text \<open>
  C3. For a table that \<open>GetTable\<close> returned and a positional value list, which is
  index-aligned to the fields and so no longer than the field list, \<open>Add\<close> passes to
  \<open>Exec\<close> an INSERT whose columns are the \<open>FullName\<close> of the fields at the non-nil
  positions, in field order, whose VALUES clause holds as many \<open>?\<close> as there are
  columns, and whose arguments are the non-nil values in the same order.
\<close>

theorem Add_columns_placeholders:
  assumes "GetTable L db_name tablename res = Inr (Inr t)"
    and "length values \<le> length (Fields t)"
  shows "Add Exec t values =
           Inr (case Exec (sqlInsert t @ '' (''
                            @ strings_Join (map (\<lambda>i. FullName (Fields t ! i)) (nonnil_positions values)) '', ''
                            @ '') VALUES (''
                            @ strings_Join (replicate (length (nonnil_positions values)) ''?'') '', ''
                            @ '')'')
                          (map (\<lambda>i. values ! i) (nonnil_positions values)) of
                  Inl err \<Rightarrow> (- 1, Some err)
                | Inr r \<Rightarrow> LastInsertId r)
         \<and> count_char (CHR ''?'')
              (strings_Join (replicate (length (nonnil_positions values)) ''?'') '', '')
             = length (map (\<lambda>i. FullName (Fields t ! i)) (nonnil_positions values))"
proof
  from GetTable_inv [OF assms(1)]
  have marks: "sqlArgMark t = replicate (length (Fields t)) ''?''" by simp
  have le: "length (nonnil_positions values) \<le> length (Fields t)"
    using length_nonnil_positions [of "values"] assms(2) by simp
  then have sl: "slice_to (sqlArgMark t) (length (nonnil_positions values))
                   = Inr (replicate (length (nonnil_positions values)) ''?'')"
    by (simp add: slice_to_def marks min_def)
  show "Add Exec t values =
           Inr (case Exec (sqlInsert t @ '' (''
                            @ strings_Join (map (\<lambda>i. FullName (Fields t ! i)) (nonnil_positions values)) '', ''
                            @ '') VALUES (''
                            @ strings_Join (replicate (length (nonnil_positions values)) ''?'') '', ''
                            @ '')'')
                          (map (\<lambda>i. values ! i) (nonnil_positions values)) of
                  Inl err \<Rightarrow> (- 1, Some err)
                | Inr r \<Rightarrow> LastInsertId r)"
    by (simp add: Add_def listcolname_loop_positions [OF assms(2)] sl split: sum.splits)
  show "count_char (CHR ''?'')
              (strings_Join (replicate (length (nonnil_positions values)) ''?'') '', '')
             = length (map (\<lambda>i. FullName (Fields t ! i)) (nonnil_positions values))"
    by (simp add: count_char_Join_marks)
qed

text \<open>\<open>Add(nil, "x", 5)\<close> on the table \<open>users\<close> of three fields.\<close>

theorem Add_columns_placeholders_witness:
  "GetTable demo_lib ''app'' ''users'' (Inr demo_cursor) = Inr (Inr demo_table)
   \<and> length [VNil, VString ''x'', VInt64 5 :: (int, nat) iface] \<le> length (Fields demo_table)
   \<and> Add (\<lambda>q ps. Inl (ErrLib q)) demo_table [VNil, VString ''x'', VInt64 5 :: (int, nat) iface]
       = Inr (- 1, Some (ErrLib (''INSERT INTO app.users (users.'' @ [CHR 0x60] @ ''name'' @ [CHR 0x60]
               @ '', users.'' @ [CHR 0x60] @ ''score'' @ [CHR 0x60] @ '') VALUES (?, ?)'')))"
proof -
  have len: "length [VNil, VString ''x'', VInt64 5 :: (int, nat) iface] \<le> length (Fields demo_table)"
    by (simp add: demo_table_def)
  have pos: "nonnil_positions [VNil, VString ''x'', VInt64 5 :: (int, nat) iface] = [1, 2]"
    by code_simp
  from Add_columns_placeholders [OF demo_GetTable len, of "\<lambda>q ps. Inl (ErrLib q)"]
  have "Add (\<lambda>q ps. Inl (ErrLib q)) demo_table [VNil, VString ''x'', VInt64 5 :: (int, nat) iface]
       = Inr (- 1, Some (ErrLib (''INSERT INTO app.users (users.'' @ [CHR 0x60] @ ''name'' @ [CHR 0x60]
               @ '', users.'' @ [CHR 0x60] @ ''score'' @ [CHR 0x60] @ '') VALUES (?, ?)'')))"
    by (simp add: pos demo_table_def demo_field_def)
  with demo_GetTable len show ?thesis by simp
qed

text \<open>
  C4. For a positional argument list, which is index-aligned to the fields and so no
  longer than the field list, \<open>Get\<close> queries with the predicates \<open>FullName=?\<close> of the non-nil positions, in field order, joined
  with \<open>AND\<close> and followed by \<open>limit 1\<close> (the keyword is written in lower case), binding
  the non-nil arguments; \<open>Find\<close> does the same with \<open>OR\<close>. With exactly one non-nil
  argument both make the same call, with the single predicate as the clause.
\<close>

theorem Get_Find_where:
  assumes "length args \<le> length (Fields t)"
  shows "Get QueryRow t args =
           Inr \<lparr>row_Row = QueryRow
                  (sqlSelect t @ '' WHERE ''
                    @ strings_Join (map (\<lambda>i. FullName (Fields t ! i) @ ''=?'') (nonnil_positions args))
                        '' AND ''
                    @ '' limit 1'')
                  (map (\<lambda>i. args ! i) (nonnil_positions args)),
                row_t = t\<rparr>
         \<and> Find QueryRow t args =
           Inr \<lparr>row_Row = QueryRow
                  (sqlSelect t @ '' WHERE ''
                    @ strings_Join (map (\<lambda>i. FullName (Fields t ! i) @ ''=?'') (nonnil_positions args))
                        '' OR ''
                    @ '' limit 1'')
                  (map (\<lambda>i. args ! i) (nonnil_positions args)),
                row_t = t\<rparr>
         \<and> (length (nonnil_positions args) = 1 \<longrightarrow>
               Get QueryRow t args = Find QueryRow t args
               \<and> Get QueryRow t args =
                   Inr \<lparr>row_Row = QueryRow
                          (sqlSelect t @ '' WHERE ''
                            @ FullName (Fields t ! hd (nonnil_positions args)) @ ''=?'' @ '' limit 1'')
                          [args ! hd (nonnil_positions args)],
                        row_t = t\<rparr>)"
proof (intro conjI impI)
  note loop = listwhere_loop_positions [OF assms]
  show g: "Get QueryRow t args =
           Inr \<lparr>row_Row = QueryRow
                  (sqlSelect t @ '' WHERE ''
                    @ strings_Join (map (\<lambda>i. FullName (Fields t ! i) @ ''=?'') (nonnil_positions args))
                        '' AND ''
                    @ '' limit 1'')
                  (map (\<lambda>i. args ! i) (nonnil_positions args)),
                row_t = t\<rparr>"
    by (simp add: Get_def loop)
  show f: "Find QueryRow t args =
           Inr \<lparr>row_Row = QueryRow
                  (sqlSelect t @ '' WHERE ''
                    @ strings_Join (map (\<lambda>i. FullName (Fields t ! i) @ ''=?'') (nonnil_positions args))
                        '' OR ''
                    @ '' limit 1'')
                  (map (\<lambda>i. args ! i) (nonnil_positions args)),
                row_t = t\<rparr>"
    by (simp add: Find_def loop)
  assume "length (nonnil_positions args) = 1"
  then obtain p where p: "nonnil_positions args = [p]"
    by (cases "nonnil_positions args") simp_all
  from g f show "Get QueryRow t args = Find QueryRow t args"
    by (simp add: p)
  from g show "Get QueryRow t args =
                   Inr \<lparr>row_Row = QueryRow
                          (sqlSelect t @ '' WHERE ''
                            @ FullName (Fields t ! hd (nonnil_positions args)) @ ''=?'' @ '' limit 1'')
                          [args ! hd (nonnil_positions args)],
                        row_t = t\<rparr>"
    by (simp add: p)
qed

text \<open>\<open>Get(nil, "x", nil)\<close>, \<open>Find(nil, "x", nil)\<close> and \<open>Find("a", "b", nil)\<close> on \<open>users\<close>.\<close>

theorem Get_Find_where_witness:
  "length [VNil, VString ''x'', VNil :: (int, nat) iface] \<le> length (Fields demo_table)
   \<and> length (nonnil_positions [VNil, VString ''x'', VNil :: (int, nat) iface]) = 1
   \<and> Get Pair demo_table [VNil, VString ''x'', VNil :: (int, nat) iface]
       = Inr \<lparr>row_Row = (sqlSelect demo_table @ '' WHERE users.'' @ [CHR 0x60] @ ''name'' @ [CHR 0x60]
                           @ ''=? limit 1'', [VString ''x'']),
              row_t = demo_table\<rparr>
   \<and> Find Pair demo_table [VNil, VString ''x'', VNil :: (int, nat) iface]
       = Get Pair demo_table [VNil, VString ''x'', VNil :: (int, nat) iface]
   \<and> length [VString ''a'', VString ''b'', VNil :: (int, nat) iface] \<le> length (Fields demo_table)
   \<and> Find Pair demo_table [VString ''a'', VString ''b'', VNil :: (int, nat) iface]
       = Inr \<lparr>row_Row = (sqlSelect demo_table @ '' WHERE users.'' @ [CHR 0x60] @ ''id'' @ [CHR 0x60]
                           @ ''=? OR users.'' @ [CHR 0x60] @ ''name'' @ [CHR 0x60] @ ''=? limit 1'',
                          [VString ''a'', VString ''b'']),
              row_t = demo_table\<rparr>"
proof -
  have len1: "length [VNil, VString ''x'', VNil :: (int, nat) iface] \<le> length (Fields demo_table)"
    and len2: "length [VString ''a'', VString ''b'', VNil :: (int, nat) iface] \<le> length (Fields demo_table)"
    by (simp_all add: demo_table_def)
  have pos1: "nonnil_positions [VNil, VString ''x'', VNil :: (int, nat) iface] = [1]"
    and pos2: "nonnil_positions [VString ''a'', VString ''b'', VNil :: (int, nat) iface] = [0, 1]"
    by code_simp+
  have fs: "FullName (Fields demo_table ! 0) = ''users.'' @ [CHR 0x60] @ ''id'' @ [CHR 0x60]"
    "FullName (Fields demo_table ! Suc 0) = ''users.'' @ [CHR 0x60] @ ''name'' @ [CHR 0x60]"
    by (simp_all add: demo_table_def demo_field_def)
  from Get_Find_where [OF len1, of Pair] Get_Find_where [OF len2, of Pair] len1 len2
  show ?thesis
    by (simp add: pos1 pos2 fs)
qed

text \<open>
  C8. For a positional argument list of nil elements only, of any length, \<open>Find\<close> and
  \<open>FindMany\<close> query with \<open>WHERE\<close> followed by the join of no predicate, which is the
  empty string, and bind no argument.
\<close>

theorem Find_all_nil:
  "Find QueryRow t (replicate n VNil) =
     Inr \<lparr>row_Row = QueryRow (sqlSelect t @ '' WHERE '' @ strings_Join [] '' OR '' @ '' limit 1'') [],
          row_t = t\<rparr>
   \<and> FindMany Query t (replicate n VNil) =
       (case Query (sqlSelect t @ '' WHERE '' @ strings_Join [] '' OR '') [] of
          Inl err \<Rightarrow> Inr (Inl err)
        | Inr rows \<Rightarrow>
            (case makeNullableScans t of
               Inl p \<Rightarrow> Inl p
             | Inr scans \<Rightarrow> Inr (Inr \<lparr>rows_Rows = rows, rows_t = t, rows_scans = scans\<rparr>)))
   \<and> strings_Join [] '' OR '' = []"
  by (simp add: Find_def FindMany_def listwhere_loop_all_nil)

text \<open>\<open>Find(nil, nil, nil)\<close>, \<open>Find()\<close> and \<open>FindMany(nil, nil, nil)\<close> on \<open>users\<close>.\<close>

theorem Find_all_nil_witness:
  "Find Pair demo_table [VNil, VNil, VNil :: (int, nat) iface] =
     Inr \<lparr>row_Row = (sqlSelect demo_table @ '' WHERE  limit 1'', []), row_t = demo_table\<rparr>
   \<and> Find Pair demo_table ([] :: (int, nat) iface list) =
     Inr \<lparr>row_Row = (sqlSelect demo_table @ '' WHERE  limit 1'', []), row_t = demo_table\<rparr>
   \<and> FindMany (\<lambda>q ps. Inl (ErrLib q)) demo_table [VNil, VNil, VNil :: (int, nat) iface] =
     (Inr (Inl (ErrLib (sqlSelect demo_table @ '' WHERE ''))) ::
        panic + ((int, nat) error + (unit, int, nat) Rows))"
proof -
  show ?thesis
    using Find_all_nil [of "Pair :: string \<Rightarrow> (int, nat) iface list \<Rightarrow> _" demo_table 3
            "\<lambda>q ps. Inl (ErrLib q) :: (int, nat) error + unit"]
          Find_all_nil [of "Pair :: string \<Rightarrow> (int, nat) iface list \<Rightarrow> _" demo_table 0
            "\<lambda>q ps. Inl (ErrLib q) :: (int, nat) error + unit"]
    by (simp add: numeral_3_eq_3)
qed

subsection \<open>ValueConverter and ResultMapper\<close>

lemma convertValue_VInt64:
  "\<not> is_Scanner dest \<Longrightarrow>
   convertValue L dest (VInt64 s) =
     (case from_int64 L dest s of
        Some r \<Rightarrow> Inr r
      | None \<Rightarrow> Inr (Some (ErrConvertType (VInt64 s) dest), dest))"
  by (subst convertValue.simps)
     (simp add: after_Value_def as_Valuer_def split: option.splits)

lemma convertValue_VString:
  "\<not> is_Scanner dest \<Longrightarrow>
   convertValue L dest (VString s) =
     (case from_string L dest s of
        Some r \<Rightarrow> Inr r
      | None \<Rightarrow> Inr (Some (ErrConvertType (VString s) dest), dest))"
  by (subst convertValue.simps)
     (simp add: after_Value_def as_Valuer_def split: option.splits)

lemma convertValue_VNil:
  "\<not> is_Scanner dest \<Longrightarrow>
   convertValue L dest VNil = Inr (Some (ErrConvertType VNil dest), dest)"
  by (subst convertValue.simps) (simp add: after_Value_def as_Valuer_def)

lemma convertValue_Valuer_VNil:
  "\<not> is_Scanner dest \<Longrightarrow> as_Valuer src = Some (Inr VNil) \<Longrightarrow>
   convertValue L dest src = Inr (Some (ErrConvertType VNil dest), dest)"
  by (subst convertValue.simps) (simp add: after_Value_def)

text \<open>
  C1. From an \<open>int64\<close> source \<open>s\<close> into a \<open>*bool\<close> that points to a cell,
  \<open>convertValue\<close> stores \<open>false\<close> for 0 and \<open>true\<close> for 1 and returns nil; for any
  other \<open>s\<close> it returns the error \<open>the int64(s) can't convert value to bool\<close> and the
  cell keeps what it held. Into an \<open>*int64\<close> that points to a cell it stores \<open>s\<close>.
\<close>

theorem convertValue_int64:
  "convertValue L (PBool (Some b)) (VInt64 s) =
     Inr (if s = 0 then (None, PBool (Some False))
          else if s = 1 then (None, PBool (Some True))
          else (Some (ErrInt64ToBool s), PBool (Some b)))
   \<and> convertValue L (PInt64 (Some d)) (VInt64 s) = Inr (None, PInt64 (Some s))"
  by (simp add: convertValue_VInt64 is_Scanner_def from_int64_def)

text \<open>The sources 1, 0 and 2.\<close>

theorem convertValue_int64_witness:
  "convertValue demo_lib (PInt64 (Some 0)) (VInt64 1) = Inr (None, PInt64 (Some 1))
   \<and> convertValue demo_lib (PBool (Some False)) (VInt64 1) = Inr (None, PBool (Some True))
   \<and> convertValue demo_lib (PBool (Some True)) (VInt64 0) = Inr (None, PBool (Some False))
   \<and> convertValue demo_lib (PBool (Some True)) (VInt64 2)
       = Inr (Some (ErrInt64ToBool 2), PBool (Some True))"
  using convertValue_int64 [of demo_lib False 1 0] convertValue_int64 [of demo_lib True 0 0]
        convertValue_int64 [of demo_lib True 2 0]
  by simp

text \<open>
  C2. From a string source into a \<open>*time.Time\<close> that points to a cell: when the
  string parses under \<open>2006-01-02 15:04:05\<close> that time is stored; when it does not,
  and parses under \<open>2006-01-02\<close>, this time is stored; when it parses under neither,
  the error of the second parse is returned and the cell keeps what it held. An error
  is returned in that last case only. This holds whatever function \<open>time.Parse\<close> is.
\<close>

theorem convertValue_string_time:
  "(time_Parse L ''2006-01-02 15:04:05'' s = Inr v \<longrightarrow>
      convertValue L (PTime (Some d)) (VString s) = Inr (None, PTime (Some v)))
   \<and> (time_Parse L ''2006-01-02 15:04:05'' s = Inl e1 \<and> time_Parse L ''2006-01-02'' s = Inr v \<longrightarrow>
      convertValue L (PTime (Some d)) (VString s) = Inr (None, PTime (Some v)))
   \<and> (time_Parse L ''2006-01-02 15:04:05'' s = Inl e1 \<and> time_Parse L ''2006-01-02'' s = Inl e2 \<longrightarrow>
      convertValue L (PTime (Some d)) (VString s) = Inr (Some e2, PTime (Some d)))
   \<and> (convertValue L (PTime (Some d)) (VString s) = Inr (Some e, d') \<longrightarrow>
      (\<exists>e1. time_Parse L ''2006-01-02 15:04:05'' s = Inl e1)
      \<and> time_Parse L ''2006-01-02'' s = Inl e \<and> d' = PTime (Some d))"
  by (auto simp: convertValue_VString is_Scanner_def from_string_def split: sum.splits)

text \<open>A full date and time, a date alone, and a string that is neither.\<close>

theorem convertValue_string_time_witness:
  "time_Parse demo_lib ''2006-01-02 15:04:05'' ''2024-01-02 03:04:05'' = Inr 14
   \<and> convertValue demo_lib (PTime (Some 0)) (VString ''2024-01-02 03:04:05'')
       = Inr (None, PTime (Some 14))
   \<and> time_Parse demo_lib ''2006-01-02 15:04:05'' ''2024-01-02''
       = Inl (ErrLib ''cannot parse as 2006-01-02 15:04:05'')
   \<and> time_Parse demo_lib ''2006-01-02'' ''2024-01-02'' = Inr 8
   \<and> convertValue demo_lib (PTime (Some 0)) (VString ''2024-01-02'') = Inr (None, PTime (Some 8))
   \<and> time_Parse demo_lib ''2006-01-02 15:04:05'' ''not-a-date''
       = Inl (ErrLib ''cannot parse as 2006-01-02 15:04:05'')
   \<and> time_Parse demo_lib ''2006-01-02'' ''not-a-date'' = Inl (ErrLib ''cannot parse as 2006-01-02'')
   \<and> convertValue demo_lib (PTime (Some 0)) (VString ''not-a-date'')
       = Inr (Some (ErrLib ''cannot parse as 2006-01-02''), PTime (Some 0))"
proof -
  have p1: "time_Parse demo_lib ''2006-01-02 15:04:05'' ''2024-01-02 03:04:05'' = Inr 14"
    by code_simp
  have p2: "time_Parse demo_lib ''2006-01-02 15:04:05'' ''2024-01-02''
       = Inl (ErrLib ''cannot parse as 2006-01-02 15:04:05'')"
    by code_simp
  have p3: "time_Parse demo_lib ''2006-01-02'' ''2024-01-02'' = Inr 8"
    by code_simp
  have p4: "time_Parse demo_lib ''2006-01-02 15:04:05'' ''not-a-date''
       = Inl (ErrLib ''cannot parse as 2006-01-02 15:04:05'')"
    by code_simp
  have p5: "time_Parse demo_lib ''2006-01-02'' ''not-a-date'' = Inl (ErrLib ''cannot parse as 2006-01-02'')"
    by code_simp
  from convertValue_string_time [of demo_lib "''2024-01-02 03:04:05''" 14 0] p1
  have c1: "convertValue demo_lib (PTime (Some 0)) (VString ''2024-01-02 03:04:05'')
       = Inr (None, PTime (Some 14))"
    by blast
  from convertValue_string_time [of demo_lib "''2024-01-02''" 8 0
         "ErrLib ''cannot parse as 2006-01-02 15:04:05''"] p2 p3
  have c2: "convertValue demo_lib (PTime (Some 0)) (VString ''2024-01-02'') = Inr (None, PTime (Some 8))"
    by blast
  from convertValue_string_time [of demo_lib "''not-a-date''" _ 0
         "ErrLib ''cannot parse as 2006-01-02 15:04:05''" "ErrLib ''cannot parse as 2006-01-02''"] p4 p5
  have c3: "convertValue demo_lib (PTime (Some 0)) (VString ''not-a-date'')
       = Inr (Some (ErrLib ''cannot parse as 2006-01-02''), PTime (Some 0))"
    by blast
  from p1 p2 p3 p4 p5 c1 c2 c3 show ?thesis by blast
qed

lemma as_Valuer_invalid:
  "\<not> nt_Valid nt \<Longrightarrow> as_Valuer (PNullTime (Some nt)) = Some (Inr VNil)"
  "\<not> nb_Valid nb \<Longrightarrow> as_Valuer (PNullBytes (Some nb)) = Some (Inr VNil)"
  "\<not> ni_Valid ni \<Longrightarrow> as_Valuer (PNullInt64 (Some ni)) = Some (Inr VNil)"
  "\<not> ns_Valid ns \<Longrightarrow> as_Valuer (PNullString (Some ns)) = Some (Inr VNil)"
  "\<not> nf_Valid nf \<Longrightarrow> as_Valuer (PNullFloat64 (Some nf)) = Some (Inr VNil)"
  by (simp_all add: as_Valuer_def NullTime_Value_def NullBytes_Value_def NullInt64_Value_def
        NullString_Value_def NullFloat64_Value_def)


lemma Scan_loop_null:
  "i < length ds \<Longrightarrow> ds ! i \<noteq> VNil \<Longrightarrow> \<not> is_Scanner (ds ! i) \<Longrightarrow> k + i < length scans \<Longrightarrow>
   as_Valuer (scans ! (k + i)) = Some (Inr VNil) \<Longrightarrow>
   Scan_loop L scans ds k \<noteq> Inr (None, ds')"
proof (induction ds arbitrary: i k ds')
  case Nil
  then show ?case by simp
next
  case (Cons d ds)
  show ?case
  proof (cases i)
    case 0
    with Cons.prems have d: "d \<noteq> VNil" "\<not> is_Scanner d" and k: "k < length scans"
      and v: "as_Valuer (scans ! k) = Some (Inr VNil)"
      by simp_all
    from convertValue_Valuer_VNil [OF d(2) v]
    have "convertValue L d (scans ! k) = Inr (Some (ErrConvertType VNil d), d)" .
    with d k show ?thesis by simp
  next
    case (Suc j)
    with Cons.prems have "j < length ds" "ds ! j \<noteq> VNil" "\<not> is_Scanner (ds ! j)"
      "Suc k + j < length scans" "as_Valuer (scans ! (Suc k + j)) = Some (Inr VNil)"
      by simp_all
    from Cons.IH [OF this] have rest: "Scan_loop L scans ds (Suc k) \<noteq> Inr (None, ds'')" for ds'' .
    show ?thesis
    proof (cases "Scan_loop L scans ds (Suc k)")
      case (Inl p)
      then show ?thesis
        by (auto split: sum.splits option.splits prod.splits)
    next
      case (Inr res)
      with rest obtain err ds'' where "res = (Some err, ds'')"
        by (cases res) (metis not_Some_eq)
      with Inr show ?thesis
        by (auto split: sum.splits option.splits prod.splits)
    qed
  qed
qed

text \<open>
  C9. For a destination without a \<open>Scan\<close> method, and a source that is nil or whose
  \<open>Value\<close> method returns nil, \<open>convertValue\<close> returns the error \<open>convertValue: type
  error\<close> and the destination is as before. So \<open>Row.Scan\<close> never returns nil when
  some destination that is not nil and has no \<open>Scan\<close> method meets a scratch cell
  whose \<open>Value\<close> is nil, as the cell of a column that was NULL is.
\<close>

theorem convertValue_null_source:
  "(\<not> is_Scanner dest \<and> (src = VNil \<or> as_Valuer src = Some (Inr VNil)) \<longrightarrow>
      convertValue L dest src = Inr (Some (ErrConvertType VNil dest), dest))
   \<and> (makeNullableScans (row_t r) = Inr scans0 \<and> Scan (row_Row r) scans0 = Inr (None, scans)
       \<and> i < length dests \<and> dests ! i \<noteq> VNil \<and> \<not> is_Scanner (dests ! i)
       \<and> i < length scans \<and> as_Valuer (scans ! i) = Some (Inr VNil) \<longrightarrow>
      (\<forall>dests'. Row_Scan L Scan r dests \<noteq> Inr (None, dests')))"
proof (intro conjI impI allI)
  assume "\<not> is_Scanner dest \<and> (src = VNil \<or> as_Valuer src = Some (Inr VNil))"
  then show "convertValue L dest src = Inr (Some (ErrConvertType VNil dest), dest)"
    using convertValue_VNil [of dest L] convertValue_Valuer_VNil [of dest src L]
    by blast
next
  fix dests'
  assume a: "makeNullableScans (row_t r) = Inr scans0 \<and> Scan (row_Row r) scans0 = Inr (None, scans)
       \<and> i < length dests \<and> dests ! i \<noteq> VNil \<and> \<not> is_Scanner (dests ! i)
       \<and> i < length scans \<and> as_Valuer (scans ! i) = Some (Inr VNil)"
  then have "Row_Scan L Scan r dests = Scan_loop L scans dests 0"
    by (simp add: Row_Scan_def)
  moreover from a have "Scan_loop L scans dests 0 \<noteq> Inr (None, dests')"
    using Scan_loop_null [of i dests 0 scans L dests'] by simp
  ultimately show "Row_Scan L Scan r dests \<noteq> Inr (None, dests')" by simp
qed

text \<open>An \<open>*int64\<close> destination against an invalid \<open>NullInt64\<close>, nil, and a row whose third column is NULL.\<close>

theorem convertValue_null_source_witness:
  "\<not> is_Scanner (PInt64 (Some 7) :: (int, nat) iface)
   \<and> as_Valuer (PNullInt64 (Some \<lparr>ni_Int64 = 0, ni_Valid = False\<rparr>) :: (int, nat) iface)
       = Some (Inr VNil)
   \<and> convertValue demo_lib (PInt64 (Some 7)) (PNullInt64 (Some \<lparr>ni_Int64 = 0, ni_Valid = False\<rparr>))
       = Inr (Some (ErrConvertType VNil (PInt64 (Some 7))), PInt64 (Some 7))
   \<and> convertValue demo_lib (PInt64 (Some 7)) VNil
       = Inr (Some (ErrConvertType VNil (PInt64 (Some 7))), PInt64 (Some 7))
   \<and> as_Valuer (demo_scans ! 2) = Some (Inr VNil)
   \<and> Row_Scan demo_lib (\<lambda>c scans. Inr (None, demo_scans)) \<lparr>row_Row = (), row_t = demo_table\<rparr>
         [PInt64 (Some 1), VNil, PInt64 (Some 2)]
       \<noteq> Inr (None, [PInt64 (Some 7), VNil, PInt64 (Some 2)])"
proof -
  have s: "\<not> is_Scanner (PInt64 (Some x) :: (int, nat) iface)" for x
    by (simp add: is_Scanner_def)
  have v: "as_Valuer (PNullInt64 (Some \<lparr>ni_Int64 = 0, ni_Valid = False\<rparr>) :: (int, nat) iface)
       = Some (Inr VNil)"
    by (simp add: as_Valuer_invalid)
  have v2: "as_Valuer (demo_scans ! 2) = Some (Inr VNil)"
    by (simp add: demo_scans_def as_Valuer_invalid)
  have m: "makeNullableScans (row_t \<lparr>row_Row = (), row_t = demo_table\<rparr>) =
             (Inr [PNullInt64 (Some \<lparr>ni_Int64 = 0, ni_Valid = False\<rparr>),
                   PNullString (Some \<lparr>ns_String = [], ns_Valid = False\<rparr>),
                   PNullInt64 (Some \<lparr>ni_Int64 = 0, ni_Valid = False\<rparr>)]
              :: panic + (int, nat) iface list)"
    by code_simp
  have l: "length demo_scans = 3"
    by (simp add: demo_scans_def)
  from convertValue_null_source
         [of "PInt64 (Some 7)" "PNullInt64 (Some \<lparr>ni_Int64 = 0, ni_Valid = False\<rparr>)" demo_lib]
       s v
  have c1: "convertValue demo_lib (PInt64 (Some 7)) (PNullInt64 (Some \<lparr>ni_Int64 = 0, ni_Valid = False\<rparr>))
       = Inr (Some (ErrConvertType VNil (PInt64 (Some 7))), PInt64 (Some 7))"
    by blast
  from convertValue_null_source [of "PInt64 (Some 7)" VNil demo_lib] s
  have c2: "convertValue demo_lib (PInt64 (Some 7)) VNil
       = Inr (Some (ErrConvertType VNil (PInt64 (Some 7))), PInt64 (Some 7))"
    by blast
  from convertValue_null_source
         [where r = "\<lparr>row_Row = (), row_t = demo_table\<rparr>"
            and Scan = "\<lambda>c scans. Inr (None, demo_scans)" and scans = demo_scans and i = 2
            and dests = "[PInt64 (Some 1), VNil, PInt64 (Some 2)]" and L = demo_lib
            and scans0 = "[PNullInt64 (Some \<lparr>ni_Int64 = 0, ni_Valid = False\<rparr>),
                   PNullString (Some \<lparr>ns_String = [], ns_Valid = False\<rparr>),
                   PNullInt64 (Some \<lparr>ni_Int64 = 0, ni_Valid = False\<rparr>)]"]
       m v2 l s
  have c3: "Row_Scan demo_lib (\<lambda>c scans. Inr (None, demo_scans)) \<lparr>row_Row = (), row_t = demo_table\<rparr>
         [PInt64 (Some 1), VNil, PInt64 (Some 2)]
       \<noteq> Inr (None, [PInt64 (Some 7), VNil, PInt64 (Some 2)])"
    by simp
  from s v v2 c1 c2 c3 show ?thesis by blast
qed

text \<open>
  C10. \<open>NullTime.Scan\<close> and \<open>NullBytes.Scan\<close> return nil for every value. A value
  that is not a \<open>time.Time\<close> (not a \<open>[]byte\<close>), nil included, leaves \<open>Valid\<close> false
  and the payload at its zero value; a value of the expected kind is stored with
  \<open>Valid\<close> true.
\<close>

theorem Null_Scan_no_error:
  fixes v :: "('f, 't::zero) iface"
  shows
  "fst (NullTime_Scan nt v) = None
   \<and> fst (NullBytes_Scan nb v) = None
   \<and> ((\<forall>t. v \<noteq> VTime t) \<longrightarrow> snd (NullTime_Scan nt v) = \<lparr>nt_Time = 0, nt_Valid = False\<rparr>)
   \<and> ((\<forall>b. v \<noteq> VBytes b) \<longrightarrow> snd (NullBytes_Scan nb v) = \<lparr>nb_Bytes = [], nb_Valid = False\<rparr>)
   \<and> snd (NullTime_Scan nt (VTime t :: ('f, 't) iface)) = \<lparr>nt_Time = t, nt_Valid = True\<rparr>
   \<and> snd (NullBytes_Scan nb (VBytes b :: ('f, 't) iface)) = \<lparr>nb_Bytes = b, nb_Valid = True\<rparr>"
  by (cases v) (simp_all add: NullTime_Scan_def NullBytes_Scan_def assert_Time_def assert_Bytes_def)

text \<open>\<open>NullTime.Scan(nil)\<close> and \<open>NullBytes.Scan("xyz")\<close>.\<close>

theorem Null_Scan_no_error_witness:
  "NullTime_Scan \<lparr>nt_Time = 5, nt_Valid = True\<rparr> (VNil :: (int, nat) iface)
     = (None, \<lparr>nt_Time = 0, nt_Valid = False\<rparr>)
   \<and> NullBytes_Scan \<lparr>nb_Bytes = ''abc'', nb_Valid = True\<rparr> (VString ''xyz'' :: (int, nat) iface)
     = (None, \<lparr>nb_Bytes = [], nb_Valid = False\<rparr>)"
  using Null_Scan_no_error [of "\<lparr>nt_Time = 5, nt_Valid = True\<rparr>" "VNil :: (int, nat) iface"
          "\<lparr>nb_Bytes = ''abc'', nb_Valid = True\<rparr>" 0 "[]"]
        Null_Scan_no_error [of "\<lparr>nt_Time = 5, nt_Valid = True\<rparr>" "VString ''xyz'' :: (int, nat) iface"
          "\<lparr>nb_Bytes = ''abc'', nb_Valid = True\<rparr>" 0 "[]"]
  by (simp add: prod_eq_iff)

end
